theory Spec2Isabelle
  imports Complex_Main "HOL-Library.Sublist"
begin

section \<open>Python values and strings\<close>

text \<open>
  Every value the runner handles is what \<^verbatim>\<open>json.loads\<close> can return or what the
  runner builds from such values: \<^verbatim>\<open>None\<close>, booleans, integers, floats, strings, lists
  and dictionaries with string keys. A dictionary is an association list in insertion
  order; \<^verbatim>\<open>d.get(k, default)\<close> is a lookup with a default. Strings are lists of
  8-bit characters (the code points 0 to 255). Floats are only passed through
  and are kept as reals.
\<close>

datatype json =
    JNull
  | JBool bool
  | JInt int
  | JFloat real
  | JStr string
  | JArr "json list"
  | JObj "(string \<times> json) list"

type_synonym pydict = "(string \<times> json) list"

definition dict_get :: "pydict \<Rightarrow> string \<Rightarrow> json \<Rightarrow> json" where
  "dict_get d k dflt = (case map_of d k of None \<Rightarrow> dflt | Some v \<Rightarrow> v)"

text \<open>\<^verbatim>\<open>isinstance(v, dict)\<close> and \<^verbatim>\<open>isinstance(v, list)\<close>.\<close>

fun is_dict :: "json \<Rightarrow> bool" where
  "is_dict (JObj d) = True"
| "is_dict v = False"

fun is_list :: "json \<Rightarrow> bool" where
  "is_list (JArr xs) = True"
| "is_list v = False"

text \<open>Truth value of a Python object, as \<^verbatim>\<open>x or y\<close> tests it.\<close>

fun py_truthy :: "json \<Rightarrow> bool" where
  "py_truthy JNull = False"
| "py_truthy (JBool b) = b"
| "py_truthy (JInt i) = (i \<noteq> 0)"
| "py_truthy (JFloat r) = (r \<noteq> 0)"
| "py_truthy (JStr s) = (s \<noteq> [])"
| "py_truthy (JArr xs) = (xs \<noteq> [])"
| "py_truthy (JObj d) = (d \<noteq> [])"

text \<open>
  \<^verbatim>\<open>str(v)\<close>: a string is returned as it is; for every other value \<^verbatim>\<open>str\<close> is
  \<^verbatim>\<open>repr\<close>, a built-in of the interpreter that is taken as the parameter \<open>repr\<close>.
\<close>

definition py_str :: "(json \<Rightarrow> string) \<Rightarrow> json \<Rightarrow> string" where
  "py_str repr v = (case v of JStr s \<Rightarrow> s | _ \<Rightarrow> repr v)"

text \<open>
  The characters \<^verbatim>\<open>str.isspace\<close> accepts among the code points 0 to 255; \<^verbatim>\<open>str.strip()\<close>
  and the regular expression class \<^verbatim>\<open>\s\<close> use the same test.
\<close>

definition py_isspace :: "char \<Rightarrow> bool" where
  "py_isspace c = (c \<in> set [CHR 0x09, CHR 0x0A, CHR 0x0B, CHR 0x0C, CHR 0x0D,
     CHR 0x1C, CHR 0x1D, CHR 0x1E, CHR 0x1F, CHR 0x20, CHR 0x85, CHR 0xA0])"

definition strip_with :: "(char \<Rightarrow> bool) \<Rightarrow> string \<Rightarrow> string" where
  "strip_with P s = rev (dropWhile P (rev (dropWhile P s)))"

definition py_strip :: "string \<Rightarrow> string" where
  "py_strip s = strip_with py_isspace s"

definition py_strip_chars :: "string \<Rightarrow> string \<Rightarrow> string" where
  "py_strip_chars cs s = strip_with (\<lambda>c. c \<in> set cs) s"

definition startswith :: "string \<Rightarrow> string \<Rightarrow> bool" where
  "startswith s p = (take (length p) s = p)"

definition py_lower_char :: "char \<Rightarrow> char" where
  "py_lower_char c =
     (let n = (of_char c :: nat)
      in if (65 \<le> n \<and> n \<le> 90) \<or> (192 \<le> n \<and> n \<le> 222 \<and> n \<noteq> 215)
         then char_of (n + 32) else c)"

definition py_lower :: "string \<Rightarrow> string" where
  "py_lower s = map py_lower_char s"

text \<open>\<^verbatim>\<open>s.find(c)\<close>: the first index of \<open>c\<close>, \<open>None\<close> where Python returns \<open>-1\<close>.\<close>

definition py_find :: "string \<Rightarrow> char \<Rightarrow> nat option" where
  "py_find s c = (if c \<in> set s then Some (length (takeWhile (\<lambda>x. x \<noteq> c) s)) else None)"

text \<open>\<^verbatim>\<open>s[a:b]\<close> for indices \<open>0 \<le> a\<close>, \<open>0 \<le> b\<close>.\<close>

definition py_slice :: "'a list \<Rightarrow> nat \<Rightarrow> nat \<Rightarrow> 'a list" where
  "py_slice s a b = take (b - a) (drop a s)"

text \<open>\<^verbatim>\<open>xs[:m]\<close> for any integer \<open>m\<close>: a negative bound counts from the end.\<close>

definition py_slice_to :: "'a list \<Rightarrow> int \<Rightarrow> 'a list" where
  "py_slice_to xs m = (if m < 0 then take (nat (int (length xs) + m)) xs else take (nat m) xs)"

text \<open>\<^verbatim>\<open>xs[-k:]\<close> for \<open>k > 0\<close>: the last \<open>k\<close> elements, all of them when there are fewer.\<close>

definition py_last_n :: "'a list \<Rightarrow> int \<Rightarrow> 'a list" where
  "py_last_n xs k = drop (length xs - nat k) xs"

fun py_join :: "string \<Rightarrow> string list \<Rightarrow> string" where
  "py_join sep [] = []"
| "py_join sep [x] = x"
| "py_join sep (x # y # ys) = x @ sep @ py_join sep (y # ys)"

text \<open>Decimal text of an index, as an f-string prints an \<^verbatim>\<open>int\<close> that is not negative.\<close>

function str_nat :: "nat \<Rightarrow> string" where
  "str_nat n =
     (if n < 10 then [''0123456789'' ! n]
      else str_nat (n div 10) @ [''0123456789'' ! (n mod 10)])"
  by pat_completeness auto
termination
  by (relation "measure id") auto

declare str_nat.simps [simp del]

section \<open>Response extractor\<close>

text \<open>
  \<^verbatim>\<open>_extract_json_object\<close>. The \<^verbatim>\<open>for i, ch in enumerate(s[start:], start=start)\<close> loop is
  \<open>brace_loop\<close>: the index \<open>i\<close> of the character, the running \<open>depth\<close> and the characters
  still to read.
\<close>

fun brace_loop :: "string \<Rightarrow> nat \<Rightarrow> nat \<Rightarrow> int \<Rightarrow> string \<Rightarrow> string option" where
  "brace_loop s start i depth [] = None"
| "brace_loop s start i depth (ch # rest) =
     (if ch = CHR ''{'' then brace_loop s start (Suc i) (depth + 1) rest
      else if ch = CHR ''}'' then
        (if depth - 1 = 0 then Some (py_slice s start (i + 1))
         else brace_loop s start (Suc i) (depth - 1) rest)
      else brace_loop s start (Suc i) depth rest)"

definition strip_fences :: "string \<Rightarrow> string" where
  "strip_fences s =
     (if startswith s ''```'' then
        (let s1 = py_strip_chars [CHR ''`'', CHR '' '', CHR 0x0A] s
         in if startswith (py_lower s1) ''json'' then py_strip (drop 4 s1) else s1)
      else s)"

definition extract_json_object :: "string \<Rightarrow> string option" where
  "extract_json_object text =
     (let s = strip_fences (py_strip text)
      in case py_find s CHR ''{'' of
           None \<Rightarrow> None
         | Some start \<Rightarrow> brace_loop s start start 0 (drop start s))"

text \<open>
  \<^verbatim>\<open>re.search(r'"next_thought"\s*:\s*"([^"]+)"', text)\<close>, returning group 1 of the
  leftmost match. \<open>rescue_at\<close> matches the pattern at the head of its argument. The
  greedy repetitions never need to give characters back: what follows \<^verbatim>\<open>\s*\<close> is not
  white space, and what follows \<^verbatim>\<open>[^"]+\<close> is the quote that the class excludes.
\<close>

definition rescue_at :: "string \<Rightarrow> string option" where
  "rescue_at s =
     (if startswith s [CHR 0x22, CHR ''n'', CHR ''e'', CHR ''x'', CHR ''t'', CHR ''_'', CHR ''t'',
                       CHR ''h'', CHR ''o'', CHR ''u'', CHR ''g'', CHR ''h'', CHR ''t'', CHR 0x22]
      then (case dropWhile py_isspace (drop 14 s) of
              [] \<Rightarrow> None
            | c # r1 \<Rightarrow>
                if c = CHR '':'' then
                  (case dropWhile py_isspace r1 of
                     [] \<Rightarrow> None
                   | q # r2 \<Rightarrow>
                       if q = CHR 0x22 then
                         (let v = takeWhile (\<lambda>x. x \<noteq> CHR 0x22) r2;
                              r3 = dropWhile (\<lambda>x. x \<noteq> CHR 0x22) r2
                          in if v \<noteq> [] \<and> r3 \<noteq> [] then Some v else None)
                       else None)
                else None)
      else None)"

fun re_search_next_thought :: "string \<Rightarrow> string option" where
  "re_search_next_thought [] = None"
| "re_search_next_thought (c # cs) =
     (case rescue_at (c # cs) of
        Some v \<Rightarrow> Some v
      | None \<Rightarrow> re_search_next_thought cs)"

text \<open>
  \<^verbatim>\<open>parse_model_json\<close>. \<^verbatim>\<open>json.loads\<close> belongs to the Python library and is the
  parameter \<open>loads\<close>: \<open>None\<close> when it raises, which \<^verbatim>\<open>except Exception\<close> catches. The
  \<^verbatim>\<open>ValueError\<close> is \<open>Inl\<close> with its message.
\<close>

definition parse_error_message :: "string \<Rightarrow> string" where
  "parse_error_message text =
     ''Model did not return valid JSON.'' @ [CHR 0x0A] @ ''Raw:'' @ [CHR 0x0A]
       @ take 500 text @ ''...''"

definition parse_model_json :: "(string \<Rightarrow> json option) \<Rightarrow> string \<Rightarrow> string + json" where
  "parse_model_json loads text =
     (case loads text of
        Some v \<Rightarrow> Inr v
      | None \<Rightarrow>
          (case (case extract_json_object text of
                   None \<Rightarrow> None
                 | Some candidate \<Rightarrow> if candidate \<noteq> [] then loads candidate else None) of
             Some v \<Rightarrow> Inr v
           | None \<Rightarrow>
               (case re_search_next_thought text of
                  Some g \<Rightarrow> Inr (JObj [(''next_thought'', JStr g), (''notes'', JObj [])])
                | None \<Rightarrow> Inl (parse_error_message text))))"

section \<open>Note compactor and prompt renderer\<close>

definition compact_notes :: "(json \<Rightarrow> string) \<Rightarrow> pydict \<Rightarrow> int \<Rightarrow> pydict" where
  "compact_notes repr notes max_items =
     map (\<lambda>k. (k, (let arr = dict_get notes k (JArr [])
                   in JArr (py_slice_to (case arr of JArr xs \<Rightarrow> xs | _ \<Rightarrow> [JStr (py_str repr arr)])
                                        max_items))))
         [''premises'', ''hypotheses'', ''uncertainties'', ''plan_next'']"

text \<open>
  Exceptions that leave a run: \<^verbatim>\<open>sys.exit(n)\<close>, and the \<^verbatim>\<open>TypeError\<close> or
  \<^verbatim>\<open>AttributeError\<close> of an operation applied to a value of the wrong type, which
  nothing catches.
\<close>

datatype pyexc = SystemExit int | TypeError | AttributeError

text \<open>
  \<^verbatim>\<open>", ".join(lst) if lst else ""\<close> inside \<^verbatim>\<open>render_prior\<close>: \<^verbatim>\<open>join\<close> raises
  \<^verbatim>\<open>TypeError\<close> on an item that is not a string, and on a value that is not iterable.
\<close>

fun str_items :: "json list \<Rightarrow> string list option" where
  "str_items [] = Some []"
| "str_items (JStr s # vs) = (case str_items vs of None \<Rightarrow> None | Some ss \<Rightarrow> Some (s # ss))"
| "str_items (v # vs) = None"

definition join_field :: "json \<Rightarrow> pyexc + string" where
  "join_field lst =
     (if \<not> py_truthy lst then Inr []
      else case lst of
             JArr vs \<Rightarrow> (case str_items vs of None \<Rightarrow> Inl TypeError | Some ss \<Rightarrow> Inr (py_join '', '' ss))
           | JStr s \<Rightarrow> Inr (py_join '', '' (map (\<lambda>c. [c]) s))
           | JObj d \<Rightarrow> Inr (py_join '', '' (map fst d))
           | _ \<Rightarrow> Inl TypeError)"

definition render_prior :: "pydict \<Rightarrow> pyexc + string" where
  "render_prior notes =
     (case join_field (dict_get notes ''premises'' (JArr [])) of
        Inl e \<Rightarrow> Inl e
      | Inr p \<Rightarrow>
     (case join_field (dict_get notes ''hypotheses'' (JArr [])) of
        Inl e \<Rightarrow> Inl e
      | Inr h \<Rightarrow>
     (case join_field (dict_get notes ''uncertainties'' (JArr [])) of
        Inl e \<Rightarrow> Inl e
      | Inr u \<Rightarrow>
     (case join_field (dict_get notes ''plan_next'' (JArr [])) of
        Inl e \<Rightarrow> Inl e
      | Inr n \<Rightarrow>
          Inr (''PRIOR NOTES (compressed):'' @ [CHR 0x0A]
               @ ''Premises*: ['' @ p @ '']'' @ [CHR 0x0A]
               @ ''Hypotheses*: ['' @ h @ '']'' @ [CHR 0x0A]
               @ ''Uncertainties*: ['' @ u @ '']'' @ [CHR 0x0A]
               @ ''Plan_next*: ['' @ n @ '']'' @ [CHR 0x0A])))))"

definition render_thought_history :: "string list \<Rightarrow> int \<Rightarrow> string" where
  "render_thought_history thoughts k =
     (let recent = (if k > 0 then py_last_n thoughts k else []);
          lines = py_join [CHR 0x0A] (map (\<lambda>t. ''- '' @ t) (rev recent))
      in ''THOUGHT HISTORY (most recent first):'' @ [CHR 0x0A]
           @ (if lines \<noteq> [] then lines else ''- (none)''))"

section \<open>The inference call and the log\<close>

text \<open>
  What lies outside the program: the HTTP exchange with the inference endpoint, the
  clock, and the two library functions \<^verbatim>\<open>json.loads\<close> and \<^verbatim>\<open>repr\<close>. The
  exchange number \<open>n\<close> of a process answers the request it is given either with a
  \<^verbatim>\<open>requests.exceptions.RequestException\<close> or with the decoded body \<^verbatim>\<open>r.json()\<close>.
  \<open>utcnow\<close> is the time stamp read when the log holds \<open>n\<close> records and \<open>elapsed\<close> the
  rounded latency of exchange \<open>n\<close>.
\<close>

record request =
  req_model :: string
  req_messages :: "(string \<times> string) list"
  req_temperature :: real
  req_top_p :: real
  req_seed :: "int option"
  req_repeat_penalty :: real
  req_format_json :: bool

datatype http_result = RequestException | Body json

record env =
  json_loads :: "string \<Rightarrow> json option"
  py_repr :: "json \<Rightarrow> string"
  http_post :: "nat \<Rightarrow> request \<Rightarrow> http_result"
  utcnow :: "nat \<Rightarrow> string"
  elapsed :: "nat \<Rightarrow> real"

text \<open>
  What the program changes outside itself: the lines appended to the JSONL log (each
  line one record, kept as the dictionary that \<^verbatim>\<open>json.dumps\<close> writes) and the requests
  posted so far. The log file is taken to be writable. Lines printed to the console
  are not part of the state.
\<close>

record world =
  logfile :: "json list"
  sent :: "request list"

text \<open>\<^verbatim>\<open>data.get("message", {}).get("content", "").strip()\<close>\<close>

definition chat_content :: "json \<Rightarrow> pyexc + string" where
  "chat_content data =
     (case data of
        JObj d \<Rightarrow>
          (case dict_get d ''message'' (JObj []) of
             JObj m \<Rightarrow>
               (case dict_get m ''content'' (JStr []) of
                  JStr c \<Rightarrow> Inr (py_strip c)
                | _ \<Rightarrow> Inl AttributeError)
           | _ \<Rightarrow> Inl AttributeError)
      | _ \<Rightarrow> Inl AttributeError)"

text \<open>The options and the payload that \<^verbatim>\<open>ollama_chat\<close> posts.\<close>

definition chat_payload ::
  "string \<Rightarrow> (string \<times> string) list \<Rightarrow> real \<Rightarrow> int option \<Rightarrow> bool \<Rightarrow> request" where
  "chat_payload mdl messages temp sd json_only =
     \<lparr>req_model = mdl, req_messages = messages, req_temperature = temp,
      req_top_p = 95 / 100, req_seed = sd, req_repeat_penalty = 11 / 10,
      req_format_json = json_only\<rparr>"

definition ollama_chat ::
  "env \<Rightarrow> string \<Rightarrow> (string \<times> string) list \<Rightarrow> real \<Rightarrow> int option \<Rightarrow> bool \<Rightarrow> world
     \<Rightarrow> (pyexc + string) \<times> world" where
  "ollama_chat env mdl messages temp sd json_only w =
     (let payload = chat_payload mdl messages temp sd json_only;
          w1 = w\<lparr>sent := sent w @ [payload]\<rparr>
      in case http_post env (length (sent w)) payload of
           RequestException \<Rightarrow> (Inl (SystemExit 1), w1)
         | Body data \<Rightarrow> (chat_content data, w1))"

definition log_jsonl :: "json \<Rightarrow> world \<Rightarrow> world" where
  "log_jsonl record w = w\<lparr>logfile := logfile w @ [record]\<rparr>"

text \<open>
  The \<^verbatim>\<open>try\<close> around \<^verbatim>\<open>parse_model_json\<close> in each run: on \<^verbatim>\<open>ValueError\<close> the payload is
  the error dictionary.
\<close>

definition parse_or_error :: "(string \<Rightarrow> json option) \<Rightarrow> string \<Rightarrow> json" where
  "parse_or_error loads text =
     (case parse_model_json loads text of
        Inr v \<Rightarrow> v
      | Inl msg \<Rightarrow> JObj [(''raw_text'', JStr text), (''parse_error'', JStr msg)])"

text \<open>
  The console summary of the batch and refinement runs:
  \<^verbatim>\<open>(ans or "")[:160].replace("\n", " ")\<close>. A truthy answer that is not a string cannot
  be sliced (\<^verbatim>\<open>TypeError\<close>) or, for a list, has no \<^verbatim>\<open>replace\<close> (\<^verbatim>\<open>AttributeError\<close>).
\<close>

definition replace_newlines :: "string \<Rightarrow> string" where
  "replace_newlines s = map (\<lambda>c. if c = CHR 0x0A then CHR '' '' else c) s"

definition console_summary :: "json \<Rightarrow> pyexc + string" where
  "console_summary parsed =
     (let ans = (case parsed of JObj d \<Rightarrow> dict_get d ''answer'' (JStr []) | _ \<Rightarrow> JStr [])
      in case (if py_truthy ans then ans else JStr []) of
           JStr s \<Rightarrow> Inr (replace_newlines (take 160 s))
         | JArr xs \<Rightarrow> Inl AttributeError
         | _ \<Rightarrow> Inl TypeError)"

text \<open>
  The exit status of the process: that of \<^verbatim>\<open>sys.exit\<close>, 1 for any other exception
  that reaches the top, 0 when the run returns.
\<close>

fun exit_status :: "pyexc + 'a \<Rightarrow> int" where
  "exit_status (Inr x) = 0"
| "exit_status (Inl (SystemExit n)) = n"
| "exit_status (Inl e) = 1"

section \<open>Run controllers\<close>

text \<open>
  The arguments of a run. \<open>iterations\<close> is \<^verbatim>\<open>samples\<close>, \<^verbatim>\<open>iterations\<close> or
  \<^verbatim>\<open>total_thoughts\<close>. The fixed instruction texts of the module are the record
  \<open>texts\<close>: they hold characters beyond code point 255 and are only ever concatenated
  into prompts.
\<close>

record run_args =
  scenario :: string
  iterations :: int
  temperature :: real
  seed :: "int option"
  model :: string
  history_window :: int
  perturb_at :: "int option"
  perturb_text :: string

record texts =
  SYSTEM_PROMPT :: string
  FORMAT_INSTRUCTIONS :: string
  BASE_INSTRUCTIONS :: string
  LOOP_INSTRUCTIONS :: string
  THOUGHTS_FORMAT :: string
  THOUGHTS_INSTRUCTIONS :: string
  THOUGHTS_EXAMPLE :: string

text \<open>
  \<^verbatim>\<open>for k in range(n): body\<close>, with the local variables \<open>st\<close> that the body carries on.
  An exception ends the loop.
\<close>

fun for_range ::
  "(nat \<Rightarrow> 's \<Rightarrow> world \<Rightarrow> (pyexc + 's) \<times> world) \<Rightarrow> nat list \<Rightarrow> 's \<Rightarrow> world
     \<Rightarrow> (pyexc + 's) \<times> world" where
  "for_range body [] st w = (Inr st, w)"
| "for_range body (k # ks) st w =
     (case body k st w of
        (Inl e, w1) \<Rightarrow> (Inl e, w1)
      | (Inr st1, w1) \<Rightarrow> for_range body ks st1 w1)"

definition params_of :: "run_args \<Rightarrow> json" where
  "params_of a =
     JObj [(''temperature'', JFloat (temperature a)),
           (''seed'', (case seed a of None \<Rightarrow> JNull | Some n \<Rightarrow> JInt n))]"

subsection \<open>Batch\<close>

definition baseline_iteration ::
  "env \<Rightarrow> texts \<Rightarrow> run_args \<Rightarrow> nat \<Rightarrow> unit \<Rightarrow> world \<Rightarrow> (pyexc + unit) \<times> world" where
  "baseline_iteration env tx a i st w =
     (let messages =
            [(''system'', SYSTEM_PROMPT tx),
             (''user'', ''SCENARIO:'' @ [CHR 0x0A] @ scenario a @ [CHR 0x0A, CHR 0x0A]
                        @ BASE_INSTRUCTIONS tx @ [CHR 0x0A] @ FORMAT_INSTRUCTIONS tx)]
      in case ollama_chat env (model a) messages (temperature a) (seed a) True w of
           (Inl e, w1) \<Rightarrow> (Inl e, w1)
         | (Inr text, w1) \<Rightarrow>
             (let parsed = parse_or_error (json_loads env) text;
                  record = JObj
                    [(''mode'', JStr ''baseline''),
                     (''iteration'', JInt (int i)),
                     (''timestamp'', JStr (utcnow env (length (logfile w1)))),
                     (''model'', JStr (model a)),
                     (''params'', params_of a),
                     (''scenario'', JStr (scenario a)),
                     (''prompt_kind'', JStr ''baseline''),
                     (''response'', parsed),
                     (''latency_sec'', JFloat (elapsed env (length (sent w))))];
                  w2 = log_jsonl record w1
              in case console_summary parsed of
                   Inl e \<Rightarrow> (Inl e, w2)
                 | Inr clean \<Rightarrow> (Inr (), w2)))"

definition baseline_run :: "env \<Rightarrow> texts \<Rightarrow> run_args \<Rightarrow> world \<Rightarrow> (pyexc + unit) \<times> world" where
  "baseline_run env tx a w =
     for_range (baseline_iteration env tx a) [0 ..< nat (iterations a)] () w"

subsection \<open>Iterative refinement\<close>

record loop_state =
  prior_notes :: pydict
  current_scenario :: string

definition initial_notes :: pydict where
  "initial_notes =
     [(''premises'', JArr []), (''hypotheses'', JArr []),
      (''uncertainties'', JArr []), (''plan_next'', JArr [])]"

text \<open>The perturbation at the head of the loop body: the scenario in effect and the change log.\<close>

definition loop_perturb :: "run_args \<Rightarrow> nat \<Rightarrow> string \<Rightarrow> string \<times> string" where
  "loop_perturb a k cur =
     (if perturb_at a = Some (int k)
      then (scenario a @ [CHR 0x0A, CHR 0x0A] @ ''CHANGE LOG (Iteration '' @ str_nat k @ ''): ''
              @ perturb_text a,
            ''CHANGE LOG applied at iteration '' @ str_nat k @ '': '' @ perturb_text a)
      else (cur, []))"

definition loop_messages :: "texts \<Rightarrow> string \<Rightarrow> string \<Rightarrow> (string \<times> string) list" where
  "loop_messages tx cur prior_section =
     [(''system'', SYSTEM_PROMPT tx),
      (''user'', ''SCENARIO:'' @ [CHR 0x0A] @ cur @ [CHR 0x0A, CHR 0x0A]
                 @ prior_section @ [CHR 0x0A]
                 @ LOOP_INSTRUCTIONS tx @ [CHR 0x0A] @ FORMAT_INSTRUCTIONS tx)]"

text \<open>
  The body from the \<^verbatim>\<open>try\<close> on: extract, update the carried notes, persist the record,
  print the summary. \<open>prior\<close> is \<^verbatim>\<open>prior_notes\<close> as the iteration found it.
\<close>

definition loop_respond ::
  "env \<Rightarrow> run_args \<Rightarrow> nat \<Rightarrow> string \<Rightarrow> string \<Rightarrow> real \<Rightarrow> string \<Rightarrow> pydict \<Rightarrow> world
     \<Rightarrow> (pyexc + loop_state) \<times> world" where
  "loop_respond env a k cur change_log dt text prior w =
     (let parsed = parse_or_error (json_loads env) text;
          new_notes = (case parsed of JObj d \<Rightarrow> dict_get d ''notes'' (JObj []) | _ \<Rightarrow> JObj []);
          notes1 = (case new_notes of JObj n \<Rightarrow> compact_notes (py_repr env) n 3 | _ \<Rightarrow> prior);
          record = JObj
            [(''mode'', JStr ''loop''),
             (''iteration'', JInt (int k)),
             (''timestamp'', JStr (utcnow env (length (logfile w)))),
             (''model'', JStr (model a)),
             (''params'', params_of a),
             (''scenario'', JStr cur),
             (''prompt_kind'', JStr ''loop''),
             (''prior_notes'', JObj notes1),
             (''response'', parsed),
             (''change_log'', JStr change_log),
             (''latency_sec'', JFloat dt)];
          w1 = log_jsonl record w
      in case console_summary parsed of
           Inl e \<Rightarrow> (Inl e, w1)
         | Inr clean \<Rightarrow> (Inr \<lparr>prior_notes = notes1, current_scenario = cur\<rparr>, w1))"

definition loop_iteration ::
  "env \<Rightarrow> texts \<Rightarrow> run_args \<Rightarrow> nat \<Rightarrow> loop_state \<Rightarrow> world \<Rightarrow> (pyexc + loop_state) \<times> world" where
  "loop_iteration env tx a k st w =
     (case loop_perturb a k (current_scenario st) of
        (cur, change_log) \<Rightarrow>
          (case render_prior (prior_notes st) of
             Inl e \<Rightarrow> (Inl e, w)
           | Inr prior_section \<Rightarrow>
               (case ollama_chat env (model a) (loop_messages tx cur prior_section)
                       (temperature a) (seed a) True w of
                  (Inl e, w1) \<Rightarrow> (Inl e, w1)
                | (Inr text, w1) \<Rightarrow>
                    loop_respond env a k cur change_log (elapsed env (length (sent w)))
                      text (prior_notes st) w1)))"

definition loop_init :: "run_args \<Rightarrow> loop_state" where
  "loop_init a = \<lparr>prior_notes = initial_notes, current_scenario = scenario a\<rparr>"

definition loop_run :: "env \<Rightarrow> texts \<Rightarrow> run_args \<Rightarrow> world \<Rightarrow> (pyexc + loop_state) \<times> world" where
  "loop_run env tx a w =
     for_range (loop_iteration env tx a) [0 ..< nat (iterations a)] (loop_init a) w"

subsection \<open>Stepwise thoughts\<close>

record thoughts_state = loop_state +
  thoughts :: "string list"

definition thoughts_perturb :: "run_args \<Rightarrow> nat \<Rightarrow> string \<Rightarrow> string \<times> string" where
  "thoughts_perturb a step cur =
     (if perturb_at a = Some (int step)
      then (scenario a @ [CHR 0x0A, CHR 0x0A] @ ''CHANGE LOG (step '' @ str_nat step @ ''): ''
              @ perturb_text a,
            ''CHANGE LOG applied at step '' @ str_nat step @ '': '' @ perturb_text a)
      else (cur, []))"

definition thoughts_messages :: "texts \<Rightarrow> string \<Rightarrow> string \<Rightarrow> (string \<times> string) list" where
  "thoughts_messages tx cur history =
     [(''system'', SYSTEM_PROMPT tx),
      (''user'', ''SCENARIO:'' @ [CHR 0x0A] @ cur @ [CHR 0x0A, CHR 0x0A]
                 @ history @ [CHR 0x0A, CHR 0x0A]
                 @ ''RESPONSE REQUIREMENTS:'' @ [CHR 0x0A]
                 @ ''- Return ONE JSON object ONLY; no markdown, no text outside the JSON.''
                 @ [CHR 0x0A]
                 @ ''- Follow the schema exactly; use empty lists [] when unknown.''
                 @ [CHR 0x0A, CHR 0x0A]
                 @ THOUGHTS_INSTRUCTIONS tx @ [CHR 0x0A] @ THOUGHTS_FORMAT tx @ [CHR 0x0A]
                 @ THOUGHTS_EXAMPLE tx)]"

text \<open>
  The body from the \<^verbatim>\<open>try\<close> on. \<open>st\<close> holds \<^verbatim>\<open>prior_notes\<close> and \<^verbatim>\<open>thoughts\<close> as the
  step found them; \<open>cur\<close> is the scenario in effect.
\<close>

definition thoughts_respond ::
  "env \<Rightarrow> run_args \<Rightarrow> nat \<Rightarrow> string \<Rightarrow> string \<Rightarrow> real \<Rightarrow> string \<Rightarrow> thoughts_state \<Rightarrow> world
     \<Rightarrow> (pyexc + thoughts_state) \<times> world" where
  "thoughts_respond env a step cur change_log dt text st w =
     (let parsed = parse_or_error (json_loads env) text;
          next_thought =
            (case parsed of
               JObj d \<Rightarrow> py_strip (py_str (py_repr env) (dict_get d ''next_thought'' (JStr [])))
             | _ \<Rightarrow> []);
          notes1 =
            (case parsed of
               JObj d \<Rightarrow>
                 (case dict_get d ''notes'' (JObj []) of
                    JObj n \<Rightarrow> compact_notes (py_repr env) n 3
                  | _ \<Rightarrow> prior_notes st)
             | _ \<Rightarrow> prior_notes st);
          thoughts1 = (if next_thought \<noteq> [] then thoughts st @ [next_thought] else thoughts st);
          record = JObj
            [(''mode'', JStr ''thoughts''),
             (''step'', JInt (int step)),
             (''timestamp'', JStr (utcnow env (length (logfile w)))),
             (''model'', JStr (model a)),
             (''params'', params_of a),
             (''scenario'', JStr cur),
             (''prompt_kind'', JStr ''thoughts''),
             (''prior_notes'', JObj notes1),
             (''next_thought'', JStr next_thought),
             (''thoughts_so_far'', JInt (int (length thoughts1))),
             (''history_window'', JInt (history_window a)),
             (''change_log'', JStr change_log),
             (''latency_sec'', JFloat dt)];
          w1 = log_jsonl record w
      in (Inr \<lparr>prior_notes = notes1, current_scenario = cur, thoughts = thoughts1\<rparr>, w1))"

definition thoughts_iteration ::
  "env \<Rightarrow> texts \<Rightarrow> run_args \<Rightarrow> nat \<Rightarrow> thoughts_state \<Rightarrow> world
     \<Rightarrow> (pyexc + thoughts_state) \<times> world" where
  "thoughts_iteration env tx a step st w =
     (case thoughts_perturb a step (current_scenario st) of
        (cur, change_log) \<Rightarrow>
          (case ollama_chat env (model a)
                  (thoughts_messages tx cur (render_thought_history (thoughts st) (history_window a)))
                  (temperature a) (seed a) True w of
             (Inl e, w1) \<Rightarrow> (Inl e, w1)
           | (Inr text, w1) \<Rightarrow>
               thoughts_respond env a step cur change_log (elapsed env (length (sent w)))
                 text st w1))"

definition thoughts_init :: "run_args \<Rightarrow> thoughts_state" where
  "thoughts_init a = \<lparr>prior_notes = initial_notes, current_scenario = scenario a, thoughts = []\<rparr>"

definition thoughts_run ::
  "env \<Rightarrow> texts \<Rightarrow> run_args \<Rightarrow> world \<Rightarrow> (pyexc + thoughts_state) \<times> world" where
  "thoughts_run env tx a w =
     for_range (thoughts_iteration env tx a) [0 ..< nat (iterations a)] (thoughts_init a) w"

section \<open>Notions of the specification\<close>

text \<open>
  The sequence the specification assigns to a category of raw notes: empty when the
  category is missing, the value itself when it is a sequence, and otherwise the one
  element obtained by string conversion.
\<close>

definition category_items :: "(json \<Rightarrow> string) \<Rightarrow> pydict \<Rightarrow> string \<Rightarrow> json list" where
  "category_items repr notes k =
     (case map_of notes k of
        None \<Rightarrow> []
      | Some (JArr xs) \<Rightarrow> xs
      | Some v \<Rightarrow> [JStr (py_str repr v)])"

text \<open>A field of a persisted record, \<^verbatim>\<open>None\<close> when the record lacks it.\<close>

definition record_field :: "string \<Rightarrow> json \<Rightarrow> json" where
  "record_field k r = (case r of JObj d \<Rightarrow> dict_get d k JNull | _ \<Rightarrow> JNull)"

text \<open>
  Brace structure of a text: the depth of a prefix is the number of opening minus the
  number of closing braces in it. A top-level object span starts with an opening brace,
  has depth 0 as a whole, and no proper prefix of it is closed (has depth 0 or less).
  Braces inside string values are counted like any other, so texts with such strings
  are outside what \<open>object_span\<close> describes.
\<close>

definition brace_depth :: "string \<Rightarrow> int" where
  "brace_depth xs = int (count_list xs CHR ''{'') - int (count_list xs CHR ''}'')"


definition object_span :: "string \<Rightarrow> bool" where
  "object_span obj =
     (obj \<noteq> [] \<and> hd obj = CHR ''{'' \<and> brace_depth obj = 0
      \<and> list_all (\<lambda>n. 0 < brace_depth (take n obj)) [1 ..< length obj])"

text \<open>A text that holds the span \<open>obj\<close> after a part free of opening braces.\<close>

definition framed :: "string \<Rightarrow> string \<Rightarrow> bool" where
  "framed obj s = (\<exists>pre post. s = pre @ obj @ post \<and> CHR ''{'' \<notin> set pre)"

text \<open>
  The \<^verbatim>\<open>next_thought\<close> of a raw response as the specification describes it: the value
  of that entry of the payload, converted to a string and trimmed of white space; empty
  when the entry is missing or the payload is not a mapping.
\<close>

definition next_thought_of :: "env \<Rightarrow> string \<Rightarrow> string" where
  "next_thought_of env text =
     (case parse_or_error (json_loads env) text of
        JObj d \<Rightarrow>
          (case map_of d ''next_thought'' of
             None \<Rightarrow> []
           | Some v \<Rightarrow> py_strip (py_str (py_repr env) v))
      | _ \<Rightarrow> [])"

text \<open>
  The prompt of a request opens with a given scenario text: its user message starts
  with the \<^verbatim>\<open>SCENARIO:\<close> line, the text and an empty line.
\<close>

definition prompt_scenario :: "request \<Rightarrow> string \<Rightarrow> bool" where
  "prompt_scenario req s =
     (case req_messages req of
        [m1, m2] \<Rightarrow>
          fst m2 = ''user''
          \<and> startswith (snd m2) (''SCENARIO:'' @ [CHR 0x0A] @ s @ [CHR 0x0A, CHR 0x0A])
      | _ \<Rightarrow> False)"

text \<open>
  What one iteration leaves behind: a record with its index under the key \<open>idx\<close>, the
  scenario in effect and the change log, and a request whose prompt opens with that
  scenario.
\<close>

definition iteration_trace :: "string \<Rightarrow> nat \<Rightarrow> string \<Rightarrow> string \<Rightarrow> json \<Rightarrow> request \<Rightarrow> bool" where
  "iteration_trace idx k c cl rec req =
     (record_field idx rec = JInt (int k)
      \<and> record_field ''scenario'' rec = JStr c
      \<and> record_field ''change_log'' rec = JStr cl
      \<and> prompt_scenario req c)"

text \<open>
  The change-log fragment that a perturbation at index \<open>p\<close> appends to the base scenario,
  in refinement and in stepwise mode.
\<close>

definition loop_fragment :: "run_args \<Rightarrow> nat \<Rightarrow> string" where
  "loop_fragment a p =
     [CHR 0x0A, CHR 0x0A] @ ''CHANGE LOG (Iteration '' @ str_nat p @ ''): '' @ perturb_text a"

definition thoughts_fragment :: "run_args \<Rightarrow> nat \<Rightarrow> string" where
  "thoughts_fragment a p =
     [CHR 0x0A, CHR 0x0A] @ ''CHANGE LOG (step '' @ str_nat p @ ''): '' @ perturb_text a"

text \<open>
  The scenario in effect at iteration \<open>k\<close> of a run perturbed at index \<open>p\<close>: the base
  scenario before \<open>p\<close>, the base scenario followed by the fragment from \<open>p\<close> on.
\<close>

definition scenario_at :: "string \<Rightarrow> string \<Rightarrow> nat \<Rightarrow> nat \<Rightarrow> string" where
  "scenario_at base frag p k = (if k < p then base else base @ frag)"

text \<open>
  The perturbation as the record number \<open>k\<close> of a run shows it, for the perturbation
  index \<open>p\<close> and the scenario \<open>sc k\<close> expected at each index: the record carries the
  index \<open>k\<close>; its change log is non-empty exactly when \<open>k = p\<close> (the perturbation
  fired in this iteration); its scenario is \<open>sc k\<close>; and the prompt of the request
  number \<open>k\<close> opens with that same scenario.
\<close>

definition perturbation_visible ::
  "string \<Rightarrow> (nat \<Rightarrow> string) \<Rightarrow> nat \<Rightarrow> request list \<Rightarrow> nat \<Rightarrow> json \<Rightarrow> bool" where
  "perturbation_visible idx sc p reqs k rec =
     (record_field idx rec = JInt (int k)
      \<and> ((record_field ''change_log'' rec \<noteq> JStr []) = (k = p))
      \<and> record_field ''scenario'' rec = JStr (sc k)
      \<and> k < length reqs
      \<and> prompt_scenario (reqs ! k) (sc k))"

text \<open>
  A property \<open>P k x\<close> holds of every element \<open>x\<close> of a list at its position \<open>k\<close>.
\<close>

definition indexed_all :: "(nat \<Rightarrow> 'a \<Rightarrow> bool) \<Rightarrow> 'a list \<Rightarrow> bool" where
  "indexed_all P xs = list_all (\<lambda>k. P k (xs ! k)) [0 ..< length xs]"

text \<open>
  The Notes a refinement iteration carries on after a response \<open>raw\<close>, from the Notes
  \<open>prior\<close> it started with: \<^verbatim>\<open>new_notes = parsed.get("notes", {}) if isinstance(parsed, dict) else {}\<close>,
  compacted when \<^verbatim>\<open>new_notes\<close> is a mapping, and \<open>prior\<close> otherwise.
\<close>

definition loop_notes :: "env \<Rightarrow> string \<Rightarrow> pydict \<Rightarrow> pydict" where
  "loop_notes env raw prior =
     (case parse_or_error (json_loads env) raw of
        JObj d \<Rightarrow>
          (case dict_get d ''notes'' (JObj []) of
             JObj n \<Rightarrow> compact_notes (py_repr env) n 3
           | _ \<Rightarrow> prior)
      | _ \<Rightarrow> compact_notes (py_repr env) [] 3)"

text \<open>
  The same for a stepwise iteration, where a payload that is not a mapping leaves the
  Notes as they were.
\<close>

definition thoughts_notes :: "env \<Rightarrow> string \<Rightarrow> pydict \<Rightarrow> pydict" where
  "thoughts_notes env raw prior =
     (case parse_or_error (json_loads env) raw of
        JObj d \<Rightarrow>
          (case dict_get d ''notes'' (JObj []) of
             JObj n \<Rightarrow> compact_notes (py_repr env) n 3
           | _ \<Rightarrow> prior)
      | _ \<Rightarrow> prior)"

section \<open>Sample inputs\<close>

text \<open>
  \<^verbatim>\<open>json.loads\<close> on the texts of the examples: each text of the table is mapped to
  the value \<^verbatim>\<open>json.loads\<close> returns for it, and the examples pass to it no other text
  that is valid JSON.
\<close>

definition sample_loads :: "string \<Rightarrow> json option" where
  "sample_loads s =
     map_of
       [(''{\"a\": {\"b\": 1}}'', JObj [(''a'', JObj [(''b'', JInt 1)])]),
        (''{\"notes\": {\"premises\": [\"p1\"]}, \"answer\": \"ok\"}'',
           JObj [(''notes'', JObj [(''premises'', JArr [JStr ''p1''])]), (''answer'', JStr ''ok'')]),
        (''{\"next_thought\": \"check power\", \"notes\": {}}'',
           JObj [(''next_thought'', JStr ''check power''), (''notes'', JObj [])]),
        (''{\"notes\": \"none\", \"answer\": \"ok\"}'',
           JObj [(''notes'', JStr ''none''), (''answer'', JStr ''ok'')]),
        (''[1]'', JArr [JInt 1])]
       s"

text \<open>
  A scripted environment: exchange \<open>n\<close> is answered by the \<open>n\<close>-th entry of the script
  and fails with a transport error once the script is used up. \<open>sample_repr\<close> is
  \<^verbatim>\<open>repr\<close> on \<^verbatim>\<open>None\<close>, booleans and integers; the examples apply it to nothing else.
\<close>

definition sample_repr :: "json \<Rightarrow> string" where
  "sample_repr v =
     (case v of
        JNull \<Rightarrow> ''None''
      | JBool b \<Rightarrow> (if b then ''True'' else ''False'')
      | JInt i \<Rightarrow> (if i < 0 then ''-'' @ str_nat (nat (- i)) else str_nat (nat i))
      | _ \<Rightarrow> [])"

definition reply :: "string \<Rightarrow> http_result" where
  "reply text =
     Body (JObj [(''message'', JObj [(''role'', JStr ''assistant''), (''content'', JStr text)])])"

definition scripted_env :: "http_result list \<Rightarrow> env" where
  "scripted_env rs =
     \<lparr>json_loads = sample_loads,
      py_repr = sample_repr,
      http_post = (\<lambda>n req. if n < length rs then rs ! n else RequestException),
      utcnow = (\<lambda>n. ''2025-01-01T00:00:0'' @ str_nat n),
      elapsed = (\<lambda>n. 1 / 2)\<rparr>"

text \<open>Abridged instruction texts, run arguments and an empty log for the examples.\<close>

definition sample_texts :: texts where
  "sample_texts =
     \<lparr>SYSTEM_PROMPT = ''ROLE: Structured JSON generator.'',
      FORMAT_INSTRUCTIONS = ''You MUST output JSON that matches this schema EXACTLY:'',
      BASE_INSTRUCTIONS = ''INSTRUCTIONS:'',
      LOOP_INSTRUCTIONS = ''INSTRUCTIONS:'',
      THOUGHTS_FORMAT = ''You MUST output JSON that matches this schema EXACTLY:'',
      THOUGHTS_INSTRUCTIONS = ''TASK:'',
      THOUGHTS_EXAMPLE = ''EXAMPLE''\<rparr>"

definition sample_args :: "int \<Rightarrow> int option \<Rightarrow> run_args" where
  "sample_args n p =
     \<lparr>scenario = ''A Mars habitat loses power.'',
      iterations = n,
      temperature = 1 / 5,
      seed = Some 42,
      model = ''llama3.2:3b'',
      history_window = 5,
      perturb_at = p,
      perturb_text = ''X happened''\<rparr>"

definition empty_world :: world where
  "empty_world = \<lparr>logfile = [], sent = []\<rparr>"

definition ok_text :: string where
  "ok_text = ''{\"notes\": {\"premises\": [\"p1\"]}, \"answer\": \"ok\"}''"

definition thought_text :: string where
  "thought_text = ''{\"next_thought\": \"check power\", \"notes\": {}}''"

text \<open>Notes in compacted form, and two further replies, for the examples.\<close>

definition sample_notes :: pydict where
  "sample_notes =
     [(''premises'', JArr [JStr ''kept'']), (''hypotheses'', JArr []),
      (''uncertainties'', JArr []), (''plan_next'', JArr [])]"

definition odd_notes_text :: string where
  "odd_notes_text = ''{\"notes\": \"none\", \"answer\": \"ok\"}''"

definition rescue_text :: string where
  "rescue_text = ''\"next_thought\": \"x\"''"

section \<open>Properties\<close>

subsection \<open>Note compactor\<close>

lemma compact_entry:
  "(case dict_get notes k (JArr []) of
      JArr xs \<Rightarrow> xs
    | _ \<Rightarrow> [JStr (py_str repr (dict_get notes k (JArr [])))])
     = category_items repr notes k"
  by (simp add: dict_get_def category_items_def split: option.splits json.splits)

text \<open>
  C7. For every raw notes mapping and every bound \<open>n\<close> that is not negative (3 in the
  runs), \<open>compact_notes\<close> returns exactly the four fixed categories, in order, each
  holding the first \<open>n\<close> items of the category's sequence: empty when the category is
  missing, the single string conversion when the raw value is not a sequence. The
  function is total, so it never fails. The two examples of the specification are the
  second and third conjunct.
\<close>

theorem compact_notes_four_categories:
  "compact_notes repr notes (int n) =
     [(''premises'', JArr (take n (category_items repr notes ''premises''))),
      (''hypotheses'', JArr (take n (category_items repr notes ''hypotheses''))),
      (''uncertainties'', JArr (take n (category_items repr notes ''uncertainties''))),
      (''plan_next'', JArr (take n (category_items repr notes ''plan_next'')))]
   \<and> compact_notes repr
        [(''premises'', JArr [JStr ''a'', JStr ''b'', JStr ''c'', JStr ''d''])] 3 =
     [(''premises'', JArr [JStr ''a'', JStr ''b'', JStr ''c'']), (''hypotheses'', JArr []),
      (''uncertainties'', JArr []), (''plan_next'', JArr [])]
   \<and> compact_notes repr [] 3 =
     [(''premises'', JArr []), (''hypotheses'', JArr []),
      (''uncertainties'', JArr []), (''plan_next'', JArr [])]"
proof (intro conjI)
  show "compact_notes repr notes (int n) =
     [(''premises'', JArr (take n (category_items repr notes ''premises''))),
      (''hypotheses'', JArr (take n (category_items repr notes ''hypotheses''))),
      (''uncertainties'', JArr (take n (category_items repr notes ''uncertainties''))),
      (''plan_next'', JArr (take n (category_items repr notes ''plan_next'')))]"
    by (simp add: compact_notes_def py_slice_to_def compact_entry Let_def)
next
  show "compact_notes repr
        [(''premises'', JArr [JStr ''a'', JStr ''b'', JStr ''c'', JStr ''d''])] 3 =
     [(''premises'', JArr [JStr ''a'', JStr ''b'', JStr ''c'']), (''hypotheses'', JArr []),
      (''uncertainties'', JArr []), (''plan_next'', JArr [])]"
    by (simp add: compact_notes_def py_slice_to_def dict_get_def)
next
  show "compact_notes repr [] 3 =
     [(''premises'', JArr []), (''hypotheses'', JArr []),
      (''uncertainties'', JArr []), (''plan_next'', JArr [])]"
    by (simp add: compact_notes_def py_slice_to_def dict_get_def)
qed

subsection \<open>Rendering the thought history\<close>

lemma py_join_bullets_empty:
  "py_join sep (map (\<lambda>t. ''- '' @ t) ys) = [] \<longleftrightarrow> ys = []"
  by (induction sep ys rule: py_join.induct) simp_all

lemma recent_rev:
  "rev (if 0 < k then py_last_n ths k else []) = take (nat k) (rev ths)"
  by (simp add: py_last_n_def take_rev)

text \<open>
  C9. The rendered block is the header followed by one line per thought among the
  first \<open>k\<close> of the reversed history, that is the \<open>k\<close> most recent thoughts, most recent
  first, and nothing of the earlier ones; when there is none to show (no thought yet,
  or a window that is not positive) the placeholder line stands in their place. With
  window 2 and history t1, t2, t3 the block shows t3, then t2, and not t1.
\<close>

theorem render_thought_history_window:
  "render_thought_history ths k =
     ''THOUGHT HISTORY (most recent first):'' @ [CHR 0x0A]
       @ (if take (nat k) (rev ths) = [] then ''- (none)''
          else py_join [CHR 0x0A] (map (\<lambda>t. ''- '' @ t) (take (nat k) (rev ths))))
   \<and> render_thought_history [] k =
       ''THOUGHT HISTORY (most recent first):'' @ [CHR 0x0A] @ ''- (none)''
   \<and> render_thought_history [''t1'', ''t2'', ''t3''] 2 =
       ''THOUGHT HISTORY (most recent first):'' @ [CHR 0x0A] @ ''- t3'' @ [CHR 0x0A] @ ''- t2''"
proof -
  have gen: "render_thought_history xs j =
     ''THOUGHT HISTORY (most recent first):'' @ [CHR 0x0A]
       @ (if take (nat j) (rev xs) = [] then ''- (none)''
          else py_join [CHR 0x0A] (map (\<lambda>t. ''- '' @ t) (take (nat j) (rev xs))))" for xs j
    unfolding render_thought_history_def Let_def recent_rev
    by (simp add: py_join_bullets_empty)
  show ?thesis
    by (intro conjI, rule gen, simp add: gen, simp add: gen)
qed

subsection \<open>Brace matching\<close>

lemma brace_depth_Nil [simp]: "brace_depth [] = 0"
  by (simp add: brace_depth_def)

lemma brace_depth_snoc:
  "brace_depth (xs @ [c]) =
     brace_depth xs + (if c = CHR ''{'' then 1 else if c = CHR ''}'' then - 1 else 0)"
  by (simp add: brace_depth_def)

lemma object_span_prefixes:
  "object_span obj \<Longrightarrow> 0 < n \<Longrightarrow> n < length obj \<Longrightarrow> 0 < brace_depth (take n obj)"
  by (simp add: object_span_def list_all_iff)

lemma brace_loop_span:
  assumes pos: "\<And>n. 0 < n \<Longrightarrow> n < length (xs @ ys) \<Longrightarrow> 0 < brace_depth (take n (xs @ ys))"
    and zero: "brace_depth (xs @ ys) = 0"
    and ne: "ys \<noteq> []"
    and first: "xs = [] \<Longrightarrow> hd ys = CHR ''{''"
  shows "brace_loop s start (start + length xs) (brace_depth xs) (ys @ post)
           = Some (py_slice s start (start + length xs + length ys))"
  using assms
proof (induction ys arbitrary: xs)
  case Nil
  then show ?case by simp
next
  case (Cons y ys)
  have dxs: "xs \<noteq> [] \<Longrightarrow> 0 < brace_depth xs"
  proof -
    assume "xs \<noteq> []"
    then have "0 < length xs" "length xs < length (xs @ y # ys)" by simp_all
    from Cons.prems(1)[OF this] show ?thesis by simp
  qed
  have dxs0: "0 \<le> brace_depth xs"
    using dxs by (cases "xs = []") auto
  have split: "xs @ y # ys = (xs @ [y]) @ ys" by simp
  have dsnoc: "ys \<noteq> [] \<Longrightarrow> 0 < brace_depth (xs @ [y])"
  proof -
    assume "ys \<noteq> []"
    then have "0 < length (xs @ [y])" "length (xs @ [y]) < length (xs @ y # ys)" by simp_all
    from Cons.prems(1)[OF this] show ?thesis by simp
  qed
  have last0: "ys = [] \<Longrightarrow> brace_depth (xs @ [y]) = 0"
    using Cons.prems(2) by simp
  have IH: "ys \<noteq> [] \<Longrightarrow>
      brace_loop s start (start + length (xs @ [y])) (brace_depth (xs @ [y])) (ys @ post)
        = Some (py_slice s start (start + length (xs @ [y]) + length ys))"
  proof -
    assume nz: "ys \<noteq> []"
    show ?thesis
    proof (rule Cons.IH)
      fix n assume "0 < n" "n < length ((xs @ [y]) @ ys)"
      then show "0 < brace_depth (take n ((xs @ [y]) @ ys))"
        using Cons.prems(1)[of n] by simp
    next
      show "brace_depth ((xs @ [y]) @ ys) = 0" using Cons.prems(2) by simp
    next
      show "ys \<noteq> []" by (rule nz)
    next
      assume "xs @ [y] = []" then show "hd ys = CHR ''{''" by simp
    qed
  qed
  show ?case
  proof (cases "y = CHR ''{''")
    case True
    have "ys \<noteq> []"
    proof
      assume "ys = []"
      from last0[OF this] True dxs0 show False by (simp add: brace_depth_snoc)
    qed
    from IH[OF this] True show ?thesis by (simp add: brace_depth_snoc)
  next
    case False
    note notopen = False
    have xs_ne: "xs \<noteq> []"
      using Cons.prems(4) False by auto
    show ?thesis
    proof (cases "y = CHR ''}''")
      case True
      show ?thesis
      proof (cases "ys = []")
        case True
        from last0[OF this] \<open>y = CHR ''}''\<close> have "brace_depth xs - 1 = 0"
          by (simp add: brace_depth_snoc)
        with True \<open>y = CHR ''}''\<close> show ?thesis by simp
      next
        case False
        from dsnoc[OF this] \<open>y = CHR ''}''\<close> have "brace_depth xs - 1 \<noteq> 0"
          by (simp add: brace_depth_snoc)
        with IH[OF False] \<open>y = CHR ''}''\<close> show ?thesis
          by (simp add: brace_depth_snoc)
      qed
    next
      case False
      have "ys \<noteq> []"
      proof
        assume "ys = []"
        from last0[OF this] False notopen dxs[OF xs_ne] show False
          by (simp add: brace_depth_snoc)
      qed
      from IH[OF this] False notopen show ?thesis by (simp add: brace_depth_snoc)
    qed
  qed
qed

lemma object_span_Cons: "object_span obj \<Longrightarrow> \<exists>r. obj = CHR ''{'' # r"
  by (cases obj) (auto simp: object_span_def)

lemma object_span_last: assumes "object_span obj" shows "last obj = CHR ''}''"
proof -
  from assms obtain r where obj: "obj = CHR ''{'' # r" using object_span_Cons by blast
  have z: "brace_depth obj = 0" using assms by (simp add: object_span_def)
  have "r \<noteq> []"
  proof
    assume "r = []"
    with obj z show False by (simp add: brace_depth_def)
  qed
  then have len: "0 < length obj - 1" "length obj - 1 < length obj" using obj by simp_all
  have bl: "obj = butlast obj @ [last obj]" using obj by simp
  have "0 < brace_depth (take (length obj - 1) obj)"
    by (rule object_span_prefixes[OF assms len])
  then have "0 < brace_depth (butlast obj)" by (simp add: butlast_conv_take)
  moreover have "brace_depth (butlast obj @ [last obj]) = 0" using z bl by simp
  ultimately show ?thesis by (simp add: brace_depth_snoc split: if_splits)
qed

lemma dropWhile_keeps_tail:
  assumes "ys \<noteq> []" and "\<not> P (hd ys)"
  shows "\<exists>xs'. dropWhile P (xs @ ys) = xs' @ ys \<and> set xs' \<subseteq> set xs"
proof (cases "\<forall>x\<in>set xs. P x")
  case True
  from assms obtain y r where ys: "ys = y # r" and ny: "\<not> P y" by (cases ys) auto
  have "dropWhile P (xs @ ys) = dropWhile P ys"
    by (rule dropWhile_append2) (use True in blast)
  also have "\<dots> = ys" using ys ny by simp
  finally have "dropWhile P (xs @ ys) = [] @ ys \<and> set [] \<subseteq> set xs" by simp
  then show ?thesis by (rule exI)
next
  case False
  then obtain x where x: "x \<in> set xs" "\<not> P x" by blast
  have "dropWhile P (xs @ ys) = dropWhile P xs @ ys"
    by (rule dropWhile_append1[of x xs P ys, OF x])
  moreover have "set (dropWhile P xs) \<subseteq> set xs"
    by (rule subsetI) (rule set_dropWhileD)
  ultimately have "dropWhile P (xs @ ys) = dropWhile P xs @ ys \<and> set (dropWhile P xs) \<subseteq> set xs"
    by (rule conjI)
  then show ?thesis by (rule exI)
qed

lemma framed_strip_with:
  assumes fr: "framed obj s" and ne: "obj \<noteq> []" and h: "\<not> P (hd obj)" and l: "\<not> P (last obj)"
  shows "framed obj (strip_with P s)"
proof -
  from fr obtain pre post where s: "s = pre @ obj @ post" and np: "CHR ''{'' \<notin> set pre"
    unfolding framed_def by (elim exE conjE)
  have "obj @ post \<noteq> []" "\<not> P (hd (obj @ post))" using ne h by simp_all
  from dropWhile_keeps_tail[of "obj @ post" P pre, OF this]
  obtain pre' where d0: "dropWhile P (pre @ obj @ post) = pre' @ obj @ post"
    and sub: "set pre' \<subseteq> set pre"
    by (elim exE conjE)
  have np': "CHR ''{'' \<notin> set pre'" using np sub by auto
  have revd: "rev (dropWhile P s) = rev post @ (rev obj @ rev pre')"
    by (simp add: s d0)
  have "rev obj @ rev pre' \<noteq> []" "\<not> P (hd (rev obj @ rev pre'))"
    using ne l by (simp_all add: hd_rev)
  from dropWhile_keeps_tail[of "rev obj @ rev pre'" P "rev post", OF this]
  obtain q where "dropWhile P (rev post @ (rev obj @ rev pre')) = q @ (rev obj @ rev pre')"
    by (elim exE conjE)
  then have "dropWhile P (rev (dropWhile P s)) = q @ (rev obj @ rev pre')"
    by (simp only: revd)
  then have e: "rev (dropWhile P (rev (dropWhile P s))) = pre' @ obj @ rev q"
    by simp
  show ?thesis
    unfolding framed_def strip_with_def
  proof (intro exI conjI)
    show "rev (dropWhile P (rev (dropWhile P s))) = pre' @ obj @ rev q" by (rule e)
    show "CHR ''{'' \<notin> set pre'" by (rule np')
  qed
qed

lemma py_lower_char_brace: "py_lower_char CHR ''{'' = CHR ''{''"
  by (simp add: py_lower_char_def)

lemma framed_drop_json:
  assumes fr: "framed (CHR ''{'' # r) s" and js: "startswith (py_lower s) ''json''"
  shows "framed (CHR ''{'' # r) (drop 4 s)"
proof -
  from fr obtain pre post where s: "s = pre @ (CHR ''{'' # r) @ post" and np: "CHR ''{'' \<notin> set pre"
    by (auto simp: framed_def)
  have "4 \<le> length pre"
  proof (rule ccontr)
    assume "\<not> 4 \<le> length pre"
    then have lt: "length pre < 4" by simp
    have at: "py_lower s ! length pre = CHR ''{''"
      by (simp add: s py_lower_def nth_append py_lower_char_brace)
    have "take 4 (py_lower s) = ''json''" using js by (simp add: startswith_def eval_nat_numeral)
    then have "''json'' ! length pre = py_lower s ! length pre"
      using nth_take[OF lt, of "py_lower s"] by simp
    with at have bad: "''json'' ! length pre = CHR ''{''" by simp
    from lt have "length pre = 0 \<or> length pre = 1 \<or> length pre = 2 \<or> length pre = 3"
      by arith
    with bad show False by auto
  qed
  then have "drop 4 s = drop 4 pre @ (CHR ''{'' # r) @ post" by (simp add: s)
  moreover have "CHR ''{'' \<notin> set (drop 4 pre)" using np by (meson in_set_dropD)
  ultimately show ?thesis unfolding framed_def by blast
qed

lemma not_space_braces: "\<not> py_isspace CHR ''{''" "\<not> py_isspace CHR ''}''"
  by (simp_all add: py_isspace_def)

lemma framed_strip_fences:
  assumes fr: "framed obj s" and sp: "object_span obj"
  shows "framed obj (strip_fences s)"
proof -
  from sp obtain r where obj: "obj = CHR ''{'' # r" using object_span_Cons by blast
  have l: "last obj = CHR ''}''" by (rule object_span_last[OF sp])
  have ne: "obj \<noteq> []" using obj by simp
  have h: "hd obj = CHR ''{''" using obj by simp
  let ?s1 = "py_strip_chars [CHR ''`'', CHR '' '', CHR 0x0A] s"
  have f1: "framed obj ?s1"
    unfolding py_strip_chars_def
    by (rule framed_strip_with[OF fr ne]) (simp_all add: h l)
  have f2: "startswith (py_lower ?s1) ''json'' \<Longrightarrow> framed obj (py_strip (drop 4 ?s1))"
  proof -
    assume js: "startswith (py_lower ?s1) ''json''"
    have "framed obj (drop 4 ?s1)" using framed_drop_json[OF f1[unfolded obj] js] obj by simp
    then show ?thesis
      unfolding py_strip_def
      by (rule framed_strip_with[OF _ ne]) (simp_all add: h l not_space_braces)
  qed
  show ?thesis using fr f1 f2 by (simp add: strip_fences_def Let_def)
qed

lemma extract_json_object_framed:
  assumes np: "CHR ''{'' \<notin> set pre" and sp: "object_span obj"
  shows "extract_json_object (pre @ obj @ post) = Some obj"
proof -
  from sp obtain r where obj: "obj = CHR ''{'' # r" using object_span_Cons by blast
  have l: "last obj = CHR ''}''" by (rule object_span_last[OF sp])
  have ne: "obj \<noteq> []" using obj by simp
  have h: "hd obj = CHR ''{''" using obj by simp
  have "framed obj (pre @ obj @ post)" using np by (auto simp: framed_def)
  then have "framed obj (py_strip (pre @ obj @ post))"
    unfolding py_strip_def
    by (rule framed_strip_with[OF _ ne]) (simp_all add: h l not_space_braces)
  then have "framed obj (strip_fences (py_strip (pre @ obj @ post)))"
    by (rule framed_strip_fences[OF _ sp])
  then obtain p q where s: "strip_fences (py_strip (pre @ obj @ post)) = p @ obj @ q"
    and npp: "CHR ''{'' \<notin> set p"
    by (auto simp: framed_def)
  have "\<forall>x\<in>set p. x \<noteq> CHR ''{''" using npp by auto
  then have tw: "takeWhile (\<lambda>x. x \<noteq> CHR ''{'') (p @ obj @ q) = p"
    using obj by simp
  have find: "py_find (p @ obj @ q) CHR ''{'' = Some (length p)"
    unfolding py_find_def tw using obj by simp
  have loop: "brace_loop (p @ obj @ q) (length p) (length p + length ([]::string)) (brace_depth [])
                (obj @ q) = Some (py_slice (p @ obj @ q) (length p) (length p + length ([]::string) + length obj))"
  proof (rule brace_loop_span)
    fix n assume "0 < n" "n < length ([] @ obj)"
    then show "0 < brace_depth (take n ([] @ obj))"
      using object_span_prefixes[OF sp, of n] by simp
  next
    show "brace_depth ([] @ obj) = 0" using sp by (simp add: object_span_def)
  next
    show "obj \<noteq> []" by (rule ne)
  next
    show "hd obj = CHR ''{''" by (rule h)
  qed
  have sl: "py_slice (p @ obj @ q) (length p) (length p + length obj) = obj"
    by (simp add: py_slice_def)
  show ?thesis
    unfolding extract_json_object_def Let_def s find
    using loop sl by simp
qed

text \<open>
  C6. Whatever precedes the first opening brace and whatever follows the object, the
  extractor returns exactly the span of the first top-level object: the text from the
  first opening brace up to the closing brace at which the depth count returns to 0,
  neither cut short nor extended. Strings holding braces are excluded by
  \<open>object_span\<close>, which counts every brace.
\<close>

theorem extract_isolates_first_object:
  assumes "CHR ''{'' \<notin> set pre" and "object_span obj"
  shows "extract_json_object (pre @ obj @ post) = Some obj"
  using assms by (rule extract_json_object_framed)

theorem extract_isolates_first_object_witness:
  "CHR ''{'' \<notin> set ''Sure: '' \<and> object_span ''{\"a\": {\"b\": 1}}''
   \<and> extract_json_object (''Sure: '' @ ''{\"a\": {\"b\": 1}}'' @ '' done {\"c\": 2}'')
        = Some ''{\"a\": {\"b\": 1}}''"
proof -
  have h1: "CHR ''{'' \<notin> set ''Sure: ''" by simp
  have h2: "object_span ''{\"a\": {\"b\": 1}}''" by code_simp
  from extract_isolates_first_object[OF h1 h2, of "'' done {\"c\": 2}''"] h1 h2
  show ?thesis by (intro conjI)
qed

text \<open>
  C8. A JSON object with balanced braces between an opening fence, with or without a
  language tag after it, and a closing fence is parsed to the same value as the
  object text alone. The tag holds no opening brace. That the fenced text as a whole
  is rejected by \<^verbatim>\<open>json.loads\<close> is a fact of the library (no JSON text starts with a
  backquote) and is a hypothesis here.
\<close>

theorem fenced_object_parses_as_inner:
  assumes tag: "CHR ''{'' \<notin> set tag"
    and span: "object_span inner"
    and inner: "loads inner = Some v"
    and fenced: "loads (''```'' @ tag @ [CHR 0x0A] @ inner @ [CHR 0x0A] @ ''```'') = None"
  shows "parse_model_json loads (''```'' @ tag @ [CHR 0x0A] @ inner @ [CHR 0x0A] @ ''```'') = Inr v
         \<and> parse_model_json loads inner = Inr v"
proof -
  have np: "CHR ''{'' \<notin> set (''```'' @ tag @ [CHR 0x0A])" using tag by simp
  have "extract_json_object ((''```'' @ tag @ [CHR 0x0A]) @ inner @ ([CHR 0x0A] @ ''```'')) = Some inner"
    by (rule extract_json_object_framed[OF np span])
  then have ex: "extract_json_object (''```'' @ tag @ [CHR 0x0A] @ inner @ [CHR 0x0A] @ ''```'') = Some inner"
    by simp
  have ne: "inner \<noteq> []" using span by (simp add: object_span_def)
  have a: "parse_model_json loads (''```'' @ tag @ [CHR 0x0A] @ inner @ [CHR 0x0A] @ ''```'') = Inr v"
    unfolding parse_model_json_def fenced ex using inner ne by simp
  have b: "parse_model_json loads inner = Inr v"
    unfolding parse_model_json_def inner by simp
  from a b show ?thesis by (rule conjI)
qed

theorem fenced_object_parses_as_inner_witness:
  "CHR ''{'' \<notin> set ''json'' \<and> object_span ''{\"a\": {\"b\": 1}}''
   \<and> sample_loads ''{\"a\": {\"b\": 1}}'' = Some (JObj [(''a'', JObj [(''b'', JInt 1)])])
   \<and> sample_loads (''```'' @ ''json'' @ [CHR 0x0A] @ ''{\"a\": {\"b\": 1}}'' @ [CHR 0x0A] @ ''```'') = None
   \<and> parse_model_json sample_loads
        (''```'' @ ''json'' @ [CHR 0x0A] @ ''{\"a\": {\"b\": 1}}'' @ [CHR 0x0A] @ ''```'')
        = Inr (JObj [(''a'', JObj [(''b'', JInt 1)])])
   \<and> parse_model_json sample_loads ''{\"a\": {\"b\": 1}}''
        = Inr (JObj [(''a'', JObj [(''b'', JInt 1)])])"
proof -
  have h1: "CHR ''{'' \<notin> set ''json''" by simp
  have h2: "object_span ''{\"a\": {\"b\": 1}}''" by code_simp
  have h3: "sample_loads ''{\"a\": {\"b\": 1}}'' = Some (JObj [(''a'', JObj [(''b'', JInt 1)])])"
    by (simp add: sample_loads_def)
  have h4: "sample_loads (''```'' @ ''json'' @ [CHR 0x0A] @ ''{\"a\": {\"b\": 1}}'' @ [CHR 0x0A] @ ''```'') = None"
    by (simp add: sample_loads_def)
  from fenced_object_parses_as_inner[OF h1 h2 h3 h4] h1 h2 h3 h4
  show ?thesis by (intro conjI) simp_all
qed

subsection \<open>Runs and transport failures\<close>

lemma for_range_append:
  "for_range body (xs @ ys) st w =
     (case for_range body xs st w of
        (Inl e, w1) \<Rightarrow> (Inl e, w1)
      | (Inr st1, w1) \<Rightarrow> for_range body ys st1 w1)"
  by (induction xs arbitrary: st w) (auto split: prod.splits sum.splits)

lemma for_range_abort:
  assumes pre: "for_range body [0 ..< k] st0 w0 = (Inr st, w)"
    and k: "k < n"
    and fail: "body k st w = (Inl e, w')"
  shows "for_range body [0 ..< n] st0 w0 = (Inl e, w')"
proof -
  have "[0 ..< n] = [0 ..< k] @ (k # [Suc k ..< n])"
    using k by (metis le_add1 less_imp_add_positive upt_add_eq_append upt_conv_Cons
        add.left_neutral zero_le)
  then show ?thesis
    by (simp add: for_range_append pre fail)
qed

lemma for_range_invariant:
  assumes run: "for_range body [i ..< j] st w = (r, w')"
    and init: "I i st w"
    and step: "\<And>k s v s' v'. i \<le> k \<Longrightarrow> k < j \<Longrightarrow> I k s v \<Longrightarrow> body k s v = (Inr s', v')
                 \<Longrightarrow> I (Suc k) s' v'"
    and fail: "\<And>k s v e v'. i \<le> k \<Longrightarrow> k < j \<Longrightarrow> I k s v \<Longrightarrow> body k s v = (Inl e, v')
                 \<Longrightarrow> F e v'"
    and le: "i \<le> j"
  shows "(\<forall>s'. r = Inr s' \<longrightarrow> I j s' w') \<and> (\<forall>e. r = Inl e \<longrightarrow> F e w')"
  using run init step fail le
proof (induction "j - i" arbitrary: i st w)
  case 0
  then have "i = j" by simp
  with 0 show ?case by auto
next
  case (Suc d)
  then have lt: "i < j" by simp
  then have up: "[i ..< j] = i # [Suc i ..< j]" by (simp add: upt_conv_Cons)
  show ?case
  proof (cases "body i st w")
    case (Pair b v)
    show ?thesis
    proof (cases b)
      case (Inl e)
      with Pair Suc.prems(1) up have "r = Inl e" "w' = v" by simp_all
      moreover have "F e v" using Suc.prems(4)[OF le_refl lt Suc.prems(2)] Pair Inl by simp
      ultimately show ?thesis by simp
    next
      case (Inr s')
      with Pair Suc.prems(1) up have rest: "for_range body [Suc i ..< j] s' v = (r, w')" by simp
      have I': "I (Suc i) s' v" using Suc.prems(3)[OF le_refl lt Suc.prems(2)] Pair Inr by simp
      have d: "d = j - Suc i" using Suc.hyps(2) by simp
      show ?thesis
      proof (rule Suc.hyps(1)[OF d rest I'])
        fix k s u s2 v2
        assume "Suc i \<le> k" "k < j" "I k s u" "body k s u = (Inr s2, v2)"
        then show "I (Suc k) s2 v2" using Suc.prems(3)[of k s u s2 v2] by simp
      next
        fix k s u e v2
        assume "Suc i \<le> k" "k < j" "I k s u" "body k s u = (Inl e, v2)"
        then show "F e v2" using Suc.prems(4)[of k s u e v2] by simp
      next
        show "Suc i \<le> j" using lt by simp
      qed
    qed
  qed
qed

lemma ollama_chat_eq:
  "ollama_chat env m msgs t sd j w =
     ((case http_post env (length (sent w)) (chat_payload m msgs t sd j) of
         RequestException \<Rightarrow> Inl (SystemExit 1)
       | Body d \<Rightarrow> chat_content d),
      w\<lparr>sent := sent w @ [chat_payload m msgs t sd j]\<rparr>)"
  by (simp add: ollama_chat_def Let_def split: http_result.splits)

lemma ollama_chat_transport:
  "http_post env (length (sent w)) (chat_payload m msgs t sd j) = RequestException \<Longrightarrow>
   ollama_chat env m msgs t sd j w =
     (Inl (SystemExit 1), w\<lparr>sent := sent w @ [chat_payload m msgs t sd j]\<rparr>)"
  by (simp add: ollama_chat_eq)

text \<open>A completed iteration appends one record and posts one request.\<close>

lemma baseline_iteration_counts:
  "baseline_iteration env tx a i st w = (Inr st', w') \<Longrightarrow>
     length (logfile w') = Suc (length (logfile w)) \<and> length (sent w') = Suc (length (sent w))"
  by (auto simp: baseline_iteration_def ollama_chat_eq log_jsonl_def Let_def
           split: sum.splits http_result.splits)

lemma loop_iteration_counts:
  "loop_iteration env tx a k st w = (Inr st', w') \<Longrightarrow>
     length (logfile w') = Suc (length (logfile w)) \<and> length (sent w') = Suc (length (sent w))"
  by (auto simp: loop_iteration_def loop_respond_def ollama_chat_eq log_jsonl_def Let_def
           split: sum.splits http_result.splits prod.splits)

lemma thoughts_iteration_counts:
  "thoughts_iteration env tx a k st w = (Inr st', w') \<Longrightarrow>
     length (logfile w') = Suc (length (logfile w)) \<and> length (sent w') = Suc (length (sent w))"
  by (auto simp: thoughts_iteration_def thoughts_respond_def ollama_chat_eq log_jsonl_def Let_def
           split: sum.splits http_result.splits prod.splits)

lemma for_range_counts:
  assumes run: "for_range body [0 ..< k] (st0::'s) w0 = (Inr st, w)"
    and one: "\<And>i s v s' v'. body i s v = (Inr s', v') \<Longrightarrow>
                length (logfile v') = Suc (length (logfile v)) \<and> length (sent v') = Suc (length (sent v))"
  shows "length (logfile w) = length (logfile w0) + k \<and> length (sent w) = length (sent w0) + k"
proof -
  define I where "I = (\<lambda>(i::nat) (s::'s) (v::world). length (logfile v) = length (logfile w0) + i
                        \<and> length (sent v) = length (sent w0) + i)"
  define F where "F = (\<lambda>(e::pyexc) (v::world). True)"
  have init: "I 0 st0 w0" by (simp add: I_def)
  have step: "I (Suc i) s' v'" if "I i s v" "body i s v = (Inr s', v')" for i s v s' v'
    using that one[of i s v s' v'] by (simp add: I_def)
  have fail: "F e v'" for e v' by (simp add: F_def)
  have "(\<forall>s'. Inr st = Inr s' \<longrightarrow> I k s' w) \<and> (\<forall>e. Inr st = Inl e \<longrightarrow> F e w)"
    using for_range_invariant[of body 0 k st0 w0 "Inr st" w I F, OF run init]
      step fail by blast
  then show ?thesis by (simp add: I_def)
qed


lemma baseline_iteration_transport:
  assumes "\<And>req. http_post env (length (sent w)) req = RequestException"
  shows "fst (baseline_iteration env tx a i st w) = Inl (SystemExit 1)
         \<and> logfile (snd (baseline_iteration env tx a i st w)) = logfile w
         \<and> length (sent (snd (baseline_iteration env tx a i st w))) = Suc (length (sent w))"
  by (simp add: baseline_iteration_def ollama_chat_eq assms)

lemma loop_iteration_transport:
  assumes "\<And>req. http_post env (length (sent w)) req = RequestException"
    and "render_prior (prior_notes st) = Inr p"
  shows "fst (loop_iteration env tx a k st w) = Inl (SystemExit 1)
         \<and> logfile (snd (loop_iteration env tx a k st w)) = logfile w
         \<and> length (sent (snd (loop_iteration env tx a k st w))) = Suc (length (sent w))"
  by (simp add: loop_iteration_def ollama_chat_eq assms split: prod.splits)

lemma thoughts_iteration_transport:
  assumes "\<And>req. http_post env (length (sent w)) req = RequestException"
  shows "fst (thoughts_iteration env tx a k st w) = Inl (SystemExit 1)
         \<and> logfile (snd (thoughts_iteration env tx a k st w)) = logfile w
         \<and> length (sent (snd (thoughts_iteration env tx a k st w))) = Suc (length (sent w))"
  by (simp add: thoughts_iteration_def ollama_chat_eq assms split: prod.splits)

lemma run_aborts:
  assumes pre: "for_range body [0 ..< k] (st0::'s) w0 = (Inr st, w)"
    and k: "k < n"
    and fail: "fst (body k st w) = Inl (SystemExit 1)
               \<and> logfile (snd (body k st w)) = logfile w
               \<and> length (sent (snd (body k st w))) = Suc (length (sent w))"
    and one: "\<And>i s v s' v'. body i s v = (Inr s', v') \<Longrightarrow>
                length (logfile v') = Suc (length (logfile v)) \<and> length (sent v') = Suc (length (sent v))"
  shows "fst (for_range body [0 ..< n] st0 w0) = Inl (SystemExit 1)
         \<and> exit_status (fst (for_range body [0 ..< n] st0 w0)) \<noteq> 0
         \<and> logfile (snd (for_range body [0 ..< n] st0 w0)) = logfile w
         \<and> length (logfile w) = length (logfile w0) + k
         \<and> length (sent (snd (for_range body [0 ..< n] st0 w0))) = length (sent w0) + k + 1"
proof -
  have f: "body k st w = (Inl (SystemExit 1), snd (body k st w))"
    using fail by (simp add: prod_eq_iff)
  have r: "for_range body [0 ..< n] st0 w0 = (Inl (SystemExit 1), snd (body k st w))"
    by (rule for_range_abort[OF pre k f])
  have c: "length (logfile w) = length (logfile w0) + k \<and> length (sent w) = length (sent w0) + k"
    by (rule for_range_counts[OF pre one])
  show ?thesis using c fail by (simp add: r)
qed

text \<open>
  C3. In each of the three modes: when the first \<open>k\<close> iterations of a run of more than
  \<open>k\<close> iterations have completed, leaving the log and the requests as in \<open>w\<close>, and the
  HTTP exchange made next fails with a transport error, the run ends with
  \<^verbatim>\<open>sys.exit(1)\<close>, a status that is not 0; the log is the one the \<open>k\<close> completed
  iterations left, that is exactly \<open>k\<close> records more than at the start and no record
  for iteration \<open>k\<close>; and exactly \<open>k + 1\<close> requests have been posted, so the failed call
  was made once. In refinement mode the call of iteration \<open>k\<close> is made only when the
  prior notes render, which is the second hypothesis there.
\<close>

theorem transport_failure_aborts_run:
  assumes k: "k < nat (iterations a)"
    and fail: "\<And>req. http_post env (length (sent w)) req = RequestException"
  shows
    "(for_range (baseline_iteration env tx a) [0 ..< k] () w0 = (Inr u, w) \<longrightarrow>
        fst (baseline_run env tx a w0) = Inl (SystemExit 1)
        \<and> exit_status (fst (baseline_run env tx a w0)) \<noteq> 0
        \<and> logfile (snd (baseline_run env tx a w0)) = logfile w
        \<and> length (logfile w) = length (logfile w0) + k
        \<and> length (sent (snd (baseline_run env tx a w0))) = length (sent w0) + k + 1)
     \<and> (for_range (loop_iteration env tx a) [0 ..< k] (loop_init a) w0 = (Inr ls, w)
          \<and> render_prior (prior_notes ls) = Inr p \<longrightarrow>
        fst (loop_run env tx a w0) = Inl (SystemExit 1)
        \<and> exit_status (fst (loop_run env tx a w0)) \<noteq> 0
        \<and> logfile (snd (loop_run env tx a w0)) = logfile w
        \<and> length (logfile w) = length (logfile w0) + k
        \<and> length (sent (snd (loop_run env tx a w0))) = length (sent w0) + k + 1)
     \<and> (for_range (thoughts_iteration env tx a) [0 ..< k] (thoughts_init a) w0 = (Inr ts, w) \<longrightarrow>
        fst (thoughts_run env tx a w0) = Inl (SystemExit 1)
        \<and> exit_status (fst (thoughts_run env tx a w0)) \<noteq> 0
        \<and> logfile (snd (thoughts_run env tx a w0)) = logfile w
        \<and> length (logfile w) = length (logfile w0) + k
        \<and> length (sent (snd (thoughts_run env tx a w0))) = length (sent w0) + k + 1)"
proof (intro conjI impI)
  assume pre: "for_range (baseline_iteration env tx a) [0 ..< k] () w0 = (Inr u, w)"
  have f: "fst (baseline_iteration env tx a k u w) = Inl (SystemExit 1)
         \<and> logfile (snd (baseline_iteration env tx a k u w)) = logfile w
         \<and> length (sent (snd (baseline_iteration env tx a k u w))) = Suc (length (sent w))"
    by (rule baseline_iteration_transport[OF fail])
  note r = run_aborts[OF pre k f baseline_iteration_counts, folded baseline_run_def]
  show "fst (baseline_run env tx a w0) = Inl (SystemExit 1)" using r by simp
  show "exit_status (fst (baseline_run env tx a w0)) \<noteq> 0" using r by simp
  show "logfile (snd (baseline_run env tx a w0)) = logfile w" using r by simp
  show "length (logfile w) = length (logfile w0) + k" using r by simp
  show "length (sent (snd (baseline_run env tx a w0))) = length (sent w0) + k + 1" using r by simp
next
  assume "for_range (loop_iteration env tx a) [0 ..< k] (loop_init a) w0 = (Inr ls, w)
          \<and> render_prior (prior_notes ls) = Inr p"
  then have pre: "for_range (loop_iteration env tx a) [0 ..< k] (loop_init a) w0 = (Inr ls, w)"
    and rp: "render_prior (prior_notes ls) = Inr p" by simp_all
  have f: "fst (loop_iteration env tx a k ls w) = Inl (SystemExit 1)
         \<and> logfile (snd (loop_iteration env tx a k ls w)) = logfile w
         \<and> length (sent (snd (loop_iteration env tx a k ls w))) = Suc (length (sent w))"
    by (rule loop_iteration_transport[OF fail rp])
  note r = run_aborts[OF pre k f loop_iteration_counts, folded loop_run_def]
  show "fst (loop_run env tx a w0) = Inl (SystemExit 1)" using r by simp
  show "exit_status (fst (loop_run env tx a w0)) \<noteq> 0" using r by simp
  show "logfile (snd (loop_run env tx a w0)) = logfile w" using r by simp
  show "length (logfile w) = length (logfile w0) + k" using r by simp
  show "length (sent (snd (loop_run env tx a w0))) = length (sent w0) + k + 1" using r by simp
next
  assume pre: "for_range (thoughts_iteration env tx a) [0 ..< k] (thoughts_init a) w0 = (Inr ts, w)"
  have f: "fst (thoughts_iteration env tx a k ts w) = Inl (SystemExit 1)
         \<and> logfile (snd (thoughts_iteration env tx a k ts w)) = logfile w
         \<and> length (sent (snd (thoughts_iteration env tx a k ts w))) = Suc (length (sent w))"
    by (rule thoughts_iteration_transport[OF fail])
  note r = run_aborts[OF pre k f thoughts_iteration_counts, folded thoughts_run_def]
  show "fst (thoughts_run env tx a w0) = Inl (SystemExit 1)" using r by simp
  show "exit_status (fst (thoughts_run env tx a w0)) \<noteq> 0" using r by simp
  show "logfile (snd (thoughts_run env tx a w0)) = logfile w" using r by simp
  show "length (logfile w) = length (logfile w0) + k" using r by simp
  show "length (sent (snd (thoughts_run env tx a w0))) = length (sent w0) + k + 1" using r by simp
qed


theorem transport_failure_aborts_run_witness:
  "(2::nat) < nat (iterations (sample_args 5 None))
   \<and> fst (baseline_run (scripted_env [reply ok_text, reply ok_text]) sample_texts
             (sample_args 5 None) empty_world) = Inl (SystemExit 1)
   \<and> length (logfile (snd (baseline_run (scripted_env [reply ok_text, reply ok_text]) sample_texts
             (sample_args 5 None) empty_world))) = 2
   \<and> length (sent (snd (baseline_run (scripted_env [reply ok_text, reply ok_text]) sample_texts
             (sample_args 5 None) empty_world))) = 3
   \<and> fst (loop_run (scripted_env [reply ok_text, reply ok_text]) sample_texts
             (sample_args 5 None) empty_world) = Inl (SystemExit 1)
   \<and> length (logfile (snd (loop_run (scripted_env [reply ok_text, reply ok_text]) sample_texts
             (sample_args 5 None) empty_world))) = 2
   \<and> length (sent (snd (loop_run (scripted_env [reply ok_text, reply ok_text]) sample_texts
             (sample_args 5 None) empty_world))) = 3
   \<and> fst (thoughts_run (scripted_env [reply ok_text, reply ok_text]) sample_texts
             (sample_args 5 None) empty_world) = Inl (SystemExit 1)
   \<and> length (logfile (snd (thoughts_run (scripted_env [reply ok_text, reply ok_text]) sample_texts
             (sample_args 5 None) empty_world))) = 2
   \<and> length (sent (snd (thoughts_run (scripted_env [reply ok_text, reply ok_text]) sample_texts
             (sample_args 5 None) empty_world))) = 3"
proof -
  let ?E = "scripted_env [reply ok_text, reply ok_text]"
  let ?A = "sample_args 5 None"
  have k: "(2::nat) < nat (iterations ?A)" by (simp add: sample_args_def)
  have post: "http_post ?E n req = RequestException" if "n = 2" for n req
    using that by (simp add: scripted_env_def)
  have eb: "case for_range (baseline_iteration ?E sample_texts ?A) [0 ..< 2] () empty_world of
              (Inr u, w) \<Rightarrow> length (sent w) = 2 | (Inl e, w) \<Rightarrow> False"
    by code_simp
  then obtain u wb where
    pb: "for_range (baseline_iteration ?E sample_texts ?A) [0 ..< 2] () empty_world = (Inr u, wb)"
    and sb: "length (sent wb) = 2"
    by (auto split: prod.splits sum.splits)
  have el: "case for_range (loop_iteration ?E sample_texts ?A) [0 ..< 2] (loop_init ?A) empty_world of
              (Inr st, w) \<Rightarrow>
                 length (sent w) = 2
                 \<and> (case render_prior (prior_notes st) of Inr p \<Rightarrow> True | Inl e \<Rightarrow> False)
            | (Inl e, w) \<Rightarrow> False"
    by code_simp
  then obtain ls wl p where
    pl: "for_range (loop_iteration ?E sample_texts ?A) [0 ..< 2] (loop_init ?A) empty_world = (Inr ls, wl)"
    and sl: "length (sent wl) = 2"
    and rp: "render_prior (prior_notes ls) = Inr p"
    by (auto split: prod.splits sum.splits)
  have et: "case for_range (thoughts_iteration ?E sample_texts ?A) [0 ..< 2] (thoughts_init ?A) empty_world of
              (Inr st, w) \<Rightarrow> length (sent w) = 2 | (Inl e, w) \<Rightarrow> False"
    by code_simp
  then obtain ts wt where
    pt: "for_range (thoughts_iteration ?E sample_texts ?A) [0 ..< 2] (thoughts_init ?A) empty_world = (Inr ts, wt)"
    and st: "length (sent wt) = 2"
    by (auto split: prod.splits sum.splits)
  have ew: "logfile empty_world = []" "sent empty_world = []" by (simp_all add: empty_world_def)
  note tb = transport_failure_aborts_run[of 2 ?A ?E wb sample_texts empty_world u, OF k post[OF sb],
      THEN conjunct1, rule_format, OF pb]
  note tl = transport_failure_aborts_run[of 2 ?A ?E wl sample_texts empty_world _ ls p, OF k post[OF sl],
      THEN conjunct2, THEN conjunct1, rule_format, OF conjI[OF pl rp]]
  note tt = transport_failure_aborts_run[of 2 ?A ?E wt sample_texts empty_world _ _ _ ts, OF k post[OF st],
      THEN conjunct2, THEN conjunct2, rule_format, OF pt]
  show ?thesis using k tb tl tt by (simp add: ew)
qed

subsection \<open>Carried notes\<close>

lemma compact_notes_empty: "compact_notes repr [] 3 = initial_notes"
  by (simp add: compact_notes_def initial_notes_def dict_get_def py_slice_to_def)

lemma parse_or_error_failed:
  "parse_model_json loads raw = Inl msg \<Longrightarrow>
   parse_or_error loads raw = JObj [(''raw_text'', JStr raw), (''parse_error'', JStr msg)]"
  by (simp add: parse_or_error_def)

lemma console_summary_no_answer:
  "map_of d ''answer'' = None \<Longrightarrow> console_summary (JObj d) = Inr []"
  by (simp add: console_summary_def dict_get_def replace_newlines_def)

lemma loop_respond_failed:
  assumes "parse_model_json (json_loads env) raw = Inl msg"
  shows "fst (loop_respond env a k cur cl dt raw prior w)
           = Inr \<lparr>prior_notes = initial_notes, current_scenario = cur\<rparr>"
  by (simp add: loop_respond_def parse_or_error_failed[OF assms] Let_def dict_get_def
        console_summary_no_answer compact_notes_empty)

lemma thoughts_respond_failed:
  assumes "parse_model_json (json_loads env) raw = Inl msg"
  shows "fst (thoughts_respond env a k cur cl dt raw st w)
           = Inr \<lparr>prior_notes = initial_notes, current_scenario = cur, thoughts = thoughts st\<rparr>"
  by (simp add: thoughts_respond_def parse_or_error_failed[OF assms] Let_def dict_get_def
        compact_notes_empty py_str_def py_strip_def strip_with_def)

lemma loop_respond_notes:
  assumes "fst (loop_respond env a k cur cl dt raw prior w) = Inr ls"
  shows "prior_notes ls =
     (case parse_or_error (json_loads env) raw of
        JObj d \<Rightarrow>
          (case dict_get d ''notes'' (JObj []) of
             JObj n \<Rightarrow> compact_notes (py_repr env) n 3
           | _ \<Rightarrow> prior)
      | _ \<Rightarrow> initial_notes)"
  using assms
  by (auto simp: loop_respond_def Let_def compact_notes_empty split: sum.splits json.splits)

lemma thoughts_respond_notes:
  "fst (thoughts_respond env a k cur cl dt raw st w) = Inr ts \<Longrightarrow>
   prior_notes ts =
     (case parse_or_error (json_loads env) raw of
        JObj d \<Rightarrow>
          (case dict_get d ''notes'' (JObj []) of
             JObj n \<Rightarrow> compact_notes (py_repr env) n 3
           | _ \<Rightarrow> prior_notes st)
      | _ \<Rightarrow> prior_notes st)"
  by (auto simp: thoughts_respond_def Let_def split: json.splits)

text \<open>
  C1, as the code has it. The error payload of a failed parse is a mapping without a
  \<^verbatim>\<open>notes\<close> entry, and a missing entry counts as the empty mapping, which the
  compactor turns into four empty categories. So in refinement and in stepwise mode an
  iteration whose raw response fails all extraction stages completes with the carried
  notes reset to the four empty categories. Every payload mapping whose \<^verbatim>\<open>notes\<close>
  entry is a mapping or is absent updates the carried notes through the compactor. The
  carried notes stay as they were only when the \<^verbatim>\<open>notes\<close> entry is present and not a
  mapping or, in stepwise mode, when the payload is not a mapping.
\<close>

theorem failed_parse_resets_notes:
  "(parse_model_json (json_loads env) raw = Inl msg \<longrightarrow>
      fst (loop_respond env a k cur cl dt raw prior w)
        = Inr \<lparr>prior_notes = initial_notes, current_scenario = cur\<rparr>
      \<and> fst (thoughts_respond env a k cur cl dt raw st w)
        = Inr \<lparr>prior_notes = initial_notes, current_scenario = cur, thoughts = thoughts st\<rparr>
      \<and> initial_notes = compact_notes (py_repr env) [] 3)
   \<and> (fst (loop_respond env a k cur cl dt raw prior w) = Inr ls
       \<and> fst (thoughts_respond env a k cur cl dt raw st w) = Inr ts
       \<and> parse_or_error (json_loads env) raw = JObj d
       \<and> dict_get d ''notes'' (JObj []) = JObj n \<longrightarrow>
      prior_notes ls = compact_notes (py_repr env) n 3
      \<and> prior_notes ts = compact_notes (py_repr env) n 3)
   \<and> (fst (loop_respond env a k cur cl dt raw prior w) = Inr ls
       \<and> fst (thoughts_respond env a k cur cl dt raw st w) = Inr ts
       \<and> parse_or_error (json_loads env) raw = JObj d
       \<and> map_of d ''notes'' = Some v \<and> \<not> is_dict v \<longrightarrow>
      prior_notes ls = prior \<and> prior_notes ts = prior_notes st)
   \<and> (fst (thoughts_respond env a k cur cl dt raw st w) = Inr ts
       \<and> \<not> is_dict (parse_or_error (json_loads env) raw) \<longrightarrow>
      prior_notes ts = prior_notes st)"
proof (intro conjI impI)
  assume f: "parse_model_json (json_loads env) raw = Inl msg"
  show "fst (loop_respond env a k cur cl dt raw prior w)
        = Inr \<lparr>prior_notes = initial_notes, current_scenario = cur\<rparr>"
    by (rule loop_respond_failed[OF f])
  show "fst (thoughts_respond env a k cur cl dt raw st w)
        = Inr \<lparr>prior_notes = initial_notes, current_scenario = cur, thoughts = thoughts st\<rparr>"
    by (rule thoughts_respond_failed[OF f])
  show "initial_notes = compact_notes (py_repr env) [] 3"
    by (simp add: compact_notes_empty)
next
  assume h: "fst (loop_respond env a k cur cl dt raw prior w) = Inr ls
       \<and> fst (thoughts_respond env a k cur cl dt raw st w) = Inr ts
       \<and> parse_or_error (json_loads env) raw = JObj d
       \<and> dict_get d ''notes'' (JObj []) = JObj n"
  show "prior_notes ls = compact_notes (py_repr env) n 3"
    using h loop_respond_notes[of env a k cur cl dt raw prior w ls] by simp
  show "prior_notes ts = compact_notes (py_repr env) n 3"
    using h thoughts_respond_notes[of env a k cur cl dt raw st w ts] by simp
next
  assume h: "fst (loop_respond env a k cur cl dt raw prior w) = Inr ls
       \<and> fst (thoughts_respond env a k cur cl dt raw st w) = Inr ts
       \<and> parse_or_error (json_loads env) raw = JObj d
       \<and> map_of d ''notes'' = Some v \<and> \<not> is_dict v"
  then have nd: "dict_get d ''notes'' (JObj []) = v" by (simp add: dict_get_def)
  show "prior_notes ls = prior"
    using h nd loop_respond_notes[of env a k cur cl dt raw prior w ls]
    by (cases v) simp_all
  show "prior_notes ts = prior_notes st"
    using h nd thoughts_respond_notes[of env a k cur cl dt raw st w ts]
    by (cases v) simp_all
next
  assume h: "fst (thoughts_respond env a k cur cl dt raw st w) = Inr ts
       \<and> \<not> is_dict (parse_or_error (json_loads env) raw)"
  show "prior_notes ts = prior_notes st"
    using h thoughts_respond_notes[of env a k cur cl dt raw st w ts]
    by (cases "parse_or_error (json_loads env) raw") simp_all
qed


theorem failed_parse_resets_notes_witness:
  "parse_model_json (json_loads (scripted_env [])) ''oops'' = Inl (parse_error_message ''oops'')
   \<and> fst (loop_respond (scripted_env []) (sample_args 1 None) 0 ''S'' [] (1 / 2) ''oops''
            sample_notes empty_world)
       = Inr \<lparr>prior_notes = initial_notes, current_scenario = ''S''\<rparr>
   \<and> fst (thoughts_respond (scripted_env []) (sample_args 1 None) 0 ''S'' [] (1 / 2) ''oops''
            \<lparr>prior_notes = sample_notes, current_scenario = ''S'', thoughts = []\<rparr> empty_world)
       = Inr \<lparr>prior_notes = initial_notes, current_scenario = ''S'', thoughts = []\<rparr>
   \<and> map_sum id prior_notes
         (fst (loop_respond (scripted_env []) (sample_args 1 None) 0 ''S'' [] (1 / 2) ok_text
                sample_notes empty_world))
       = Inr [(''premises'', JArr [JStr ''p1'']), (''hypotheses'', JArr []),
              (''uncertainties'', JArr []), (''plan_next'', JArr [])]
   \<and> map_sum id prior_notes
         (fst (loop_respond (scripted_env []) (sample_args 1 None) 0 ''S'' [] (1 / 2) odd_notes_text
                sample_notes empty_world))
       = Inr sample_notes
   \<and> map_sum id prior_notes
         (fst (thoughts_respond (scripted_env []) (sample_args 1 None) 0 ''S'' [] (1 / 2) ''[1]''
                \<lparr>prior_notes = sample_notes, current_scenario = ''S'', thoughts = []\<rparr> empty_world))
       = Inr sample_notes"
proof -
  let ?E = "scripted_env []"
  let ?A = "sample_args 1 None"
  let ?st = "\<lparr>prior_notes = sample_notes, current_scenario = ''S'', thoughts = []\<rparr>"
  have jl: "json_loads ?E = sample_loads" and pr: "py_repr ?E = sample_repr"
    by (simp_all add: scripted_env_def)
  have f: "parse_model_json (json_loads ?E) ''oops'' = Inl (parse_error_message ''oops'')"
    unfolding jl by code_simp
  note t1 = failed_parse_resets_notes[of ?E "''oops''" "parse_error_message ''oops''" ?A 0 "''S''" "[]"
      "1 / 2" sample_notes empty_world ?st, THEN conjunct1, rule_format, OF f]
  \<comment> \<open>a payload with a notes mapping\<close>
  have "case fst (loop_respond ?E ?A 0 ''S'' [] (1 / 2) ok_text sample_notes empty_world) of
          Inr s \<Rightarrow> True | Inl e \<Rightarrow> False" by code_simp
  then obtain l2 where l2: "fst (loop_respond ?E ?A 0 ''S'' [] (1 / 2) ok_text sample_notes empty_world) = Inr l2"
    by (auto split: sum.splits)
  have "case fst (thoughts_respond ?E ?A 0 ''S'' [] (1 / 2) ok_text ?st empty_world) of
          Inr s \<Rightarrow> True | Inl e \<Rightarrow> False" by code_simp
  then obtain s2 where s2: "fst (thoughts_respond ?E ?A 0 ''S'' [] (1 / 2) ok_text ?st empty_world) = Inr s2"
    by (auto split: sum.splits)
  have p2: "parse_or_error (json_loads ?E) ok_text
              = JObj [(''notes'', JObj [(''premises'', JArr [JStr ''p1''])]), (''answer'', JStr ''ok'')]"
    unfolding jl by code_simp
  have n2: "dict_get [(''notes'', JObj [(''premises'', JArr [JStr ''p1''])]), (''answer'', JStr ''ok'')]
              ''notes'' (JObj []) = JObj [(''premises'', JArr [JStr ''p1''])]"
    by (simp add: dict_get_def)
  note t2 = failed_parse_resets_notes[of ?E ok_text _ ?A 0 "''S''" "[]" "1 / 2" sample_notes empty_world ?st
      l2 s2 _ _, THEN conjunct2, THEN conjunct1, rule_format, OF conjI[OF l2 conjI[OF s2 conjI[OF p2 n2]]]]
  have c2: "compact_notes (py_repr ?E) [(''premises'', JArr [JStr ''p1''])] 3
              = [(''premises'', JArr [JStr ''p1'']), (''hypotheses'', JArr []),
                 (''uncertainties'', JArr []), (''plan_next'', JArr [])]"
    by (simp add: compact_notes_def dict_get_def py_slice_to_def)
  \<comment> \<open>a payload whose notes entry is not a mapping\<close>
  have "case fst (loop_respond ?E ?A 0 ''S'' [] (1 / 2) odd_notes_text sample_notes empty_world) of
          Inr s \<Rightarrow> True | Inl e \<Rightarrow> False" by code_simp
  then obtain l3 where l3: "fst (loop_respond ?E ?A 0 ''S'' [] (1 / 2) odd_notes_text sample_notes empty_world) = Inr l3"
    by (auto split: sum.splits)
  have "case fst (thoughts_respond ?E ?A 0 ''S'' [] (1 / 2) odd_notes_text ?st empty_world) of
          Inr s \<Rightarrow> True | Inl e \<Rightarrow> False" by code_simp
  then obtain s3 where s3: "fst (thoughts_respond ?E ?A 0 ''S'' [] (1 / 2) odd_notes_text ?st empty_world) = Inr s3"
    by (auto split: sum.splits)
  have p3: "parse_or_error (json_loads ?E) odd_notes_text
              = JObj [(''notes'', JStr ''none''), (''answer'', JStr ''ok'')]"
    unfolding jl by code_simp
  have n3: "map_of [(''notes'', JStr ''none''), (''answer'', JStr ''ok'')] ''notes'' = Some (JStr ''none'')
            \<and> \<not> is_dict (JStr ''none'')" by simp
  note t3 = failed_parse_resets_notes[of ?E odd_notes_text _ ?A 0 "''S''" "[]" "1 / 2" sample_notes empty_world ?st
      l3 s3 _ _ "JStr ''none''", THEN conjunct2, THEN conjunct2, THEN conjunct1, rule_format,
      OF conjI[OF l3 conjI[OF s3 conjI[OF p3 n3]]]]
  \<comment> \<open>a payload that is not a mapping\<close>
  have "case fst (thoughts_respond ?E ?A 0 ''S'' [] (1 / 2) ''[1]'' ?st empty_world) of
          Inr s \<Rightarrow> True | Inl e \<Rightarrow> False" by code_simp
  then obtain s4 where s4: "fst (thoughts_respond ?E ?A 0 ''S'' [] (1 / 2) ''[1]'' ?st empty_world) = Inr s4"
    by (auto split: sum.splits)
  have p4: "\<not> is_dict (parse_or_error (json_loads ?E) ''[1]'')"
    unfolding jl by code_simp
  note t4 = failed_parse_resets_notes[of ?E "''[1]''" _ ?A 0 "''S''" "[]" "1 / 2" _ empty_world ?st
      _ s4, THEN conjunct2, THEN conjunct2, THEN conjunct2, rule_format, OF conjI[OF s4 p4]]
  show ?thesis
    using f t1 t2 t3 t4 l2 l3 s4 c2 by simp
qed

text \<open>
  The claim C1 as stated fails: after the reply \<^verbatim>\<open>oops\<close>, which no stage can parse, an
  iteration that started with a non-empty premise ends with empty notes, in both modes.
\<close>

theorem failed_parse_keeps_notes_counterexample:
  "parse_model_json sample_loads ''oops'' = Inl (parse_error_message ''oops'')
   \<and> map_sum id prior_notes
         (fst (loop_iteration (scripted_env [reply ''oops'']) sample_texts (sample_args 1 None) 0
                \<lparr>prior_notes = sample_notes, current_scenario = ''A Mars habitat loses power.''\<rparr>
                empty_world))
       = Inr initial_notes
   \<and> map_sum id prior_notes
         (fst (thoughts_iteration (scripted_env [reply ''oops'']) sample_texts (sample_args 1 None) 0
                \<lparr>prior_notes = sample_notes, current_scenario = ''A Mars habitat loses power.'',
                  thoughts = []\<rparr>
                empty_world))
       = Inr initial_notes
   \<and> sample_notes \<noteq> initial_notes"
proof (intro conjI)
  show "parse_model_json sample_loads ''oops'' = Inl (parse_error_message ''oops'')"
    by code_simp
  show "map_sum id prior_notes
         (fst (loop_iteration (scripted_env [reply ''oops'']) sample_texts (sample_args 1 None) 0
                \<lparr>prior_notes = sample_notes, current_scenario = ''A Mars habitat loses power.''\<rparr>
                empty_world))
       = Inr initial_notes"
    by code_simp
  show "map_sum id prior_notes
         (fst (thoughts_iteration (scripted_env [reply ''oops'']) sample_texts (sample_args 1 None) 0
                \<lparr>prior_notes = sample_notes, current_scenario = ''A Mars habitat loses power.'',
                  thoughts = []\<rparr>
                empty_world))
       = Inr initial_notes"
    by code_simp
  show "sample_notes \<noteq> initial_notes"
    by (simp add: sample_notes_def initial_notes_def)
qed

subsection \<open>The regex rescue\<close>

text \<open>
  C2, as the code has it. \<^verbatim>\<open>parse_model_json\<close> takes the raw text alone, no mode and no
  schema, and the three runs all take their payload from it. For every raw text whose
  first two stages fail, in any mode, extraction returns the rescue payload with the
  first quoted value after a \<^verbatim>\<open>"next_thought":\<close> key when the text holds that pattern, and
  fails with the error condition exactly when it does not.
\<close>

theorem rescue_applies_in_every_mode:
  assumes s1: "loads raw = None"
    and s2: "\<And>c. extract_json_object raw = Some c \<Longrightarrow> loads c = None"
  shows "parse_model_json loads raw =
           (case re_search_next_thought raw of
              Some g \<Rightarrow> Inr (JObj [(''next_thought'', JStr g), (''notes'', JObj [])])
            | None \<Rightarrow> Inl (parse_error_message raw))
         \<and> parse_or_error loads raw =
           (case re_search_next_thought raw of
              Some g \<Rightarrow> JObj [(''next_thought'', JStr g), (''notes'', JObj [])]
            | None \<Rightarrow> JObj [(''raw_text'', JStr raw),
                             (''parse_error'', JStr (parse_error_message raw))])"
proof -
  have st2: "(case extract_json_object raw of
                None \<Rightarrow> None
              | Some candidate \<Rightarrow> if candidate \<noteq> [] then loads candidate else None) = None"
    using s2 by (cases "extract_json_object raw") simp_all
  have a: "parse_model_json loads raw =
           (case re_search_next_thought raw of
              Some g \<Rightarrow> Inr (JObj [(''next_thought'', JStr g), (''notes'', JObj [])])
            | None \<Rightarrow> Inl (parse_error_message raw))"
    unfolding parse_model_json_def s1 st2 by simp
  show ?thesis
    by (rule conjI[OF a]) (simp add: parse_or_error_def a split: option.splits)
qed

theorem rescue_applies_in_every_mode_witness:
  "sample_loads rescue_text = None
   \<and> extract_json_object rescue_text = None
   \<and> parse_model_json sample_loads rescue_text
       = Inr (JObj [(''next_thought'', JStr ''x''), (''notes'', JObj [])])
   \<and> parse_or_error sample_loads rescue_text
       = JObj [(''next_thought'', JStr ''x''), (''notes'', JObj [])]
   \<and> sample_loads ''oops'' = None
   \<and> parse_model_json sample_loads ''oops'' = Inl (parse_error_message ''oops'')"
proof -
  have h1: "sample_loads rescue_text = None" by code_simp
  have h2: "extract_json_object rescue_text = None" by code_simp
  have h3: "re_search_next_thought rescue_text = Some ''x''" by code_simp
  have g1: "sample_loads ''oops'' = None" by code_simp
  have g2: "extract_json_object ''oops'' = None" by code_simp
  have g3: "re_search_next_thought ''oops'' = None" by code_simp
  have t1: "parse_model_json sample_loads rescue_text =
           (case re_search_next_thought rescue_text of
              Some g \<Rightarrow> Inr (JObj [(''next_thought'', JStr g), (''notes'', JObj [])])
            | None \<Rightarrow> Inl (parse_error_message rescue_text))
         \<and> parse_or_error sample_loads rescue_text =
           (case re_search_next_thought rescue_text of
              Some g \<Rightarrow> JObj [(''next_thought'', JStr g), (''notes'', JObj [])]
            | None \<Rightarrow> JObj [(''raw_text'', JStr rescue_text),
                             (''parse_error'', JStr (parse_error_message rescue_text))])"
    by (rule rescue_applies_in_every_mode[of sample_loads rescue_text, OF h1]) (simp add: h2)
  have t2: "parse_model_json sample_loads ''oops'' =
           (case re_search_next_thought ''oops'' of
              Some g \<Rightarrow> Inr (JObj [(''next_thought'', JStr g), (''notes'', JObj [])])
            | None \<Rightarrow> Inl (parse_error_message ''oops''))
         \<and> parse_or_error sample_loads ''oops'' =
           (case re_search_next_thought ''oops'' of
              Some g \<Rightarrow> JObj [(''next_thought'', JStr g), (''notes'', JObj [])]
            | None \<Rightarrow> JObj [(''raw_text'', JStr ''oops''),
                             (''parse_error'', JStr (parse_error_message ''oops''))])"
    by (rule rescue_applies_in_every_mode[of sample_loads "''oops''", OF g1]) (simp add: g2)
  have c1: "parse_model_json sample_loads rescue_text
              = Inr (JObj [(''next_thought'', JStr ''x''), (''notes'', JObj [])])
            \<and> parse_or_error sample_loads rescue_text
              = JObj [(''next_thought'', JStr ''x''), (''notes'', JObj [])]"
    using t1 unfolding h3 by simp
  have c2: "parse_model_json sample_loads ''oops'' = Inl (parse_error_message ''oops'')"
    using t2 unfolding g3 by simp
  from h1 h2 c1 g1 c2 show ?thesis by (intro conjI) simp_all
qed

text \<open>
  The claim C2 as stated fails: a reply made of the key pattern alone is not JSON and
  holds no brace, so both first stages fail, and the record of a batch run and of a
  refinement run holds the rescue payload, not the error payload.
\<close>

theorem rescue_outside_stepwise_counterexample:
  "sample_loads rescue_text = None
   \<and> extract_json_object rescue_text = None
   \<and> map (record_field ''response'')
         (logfile (snd (baseline_run (scripted_env [reply rescue_text]) sample_texts
                          (sample_args 1 None) empty_world)))
       = [JObj [(''next_thought'', JStr ''x''), (''notes'', JObj [])]]
   \<and> map (record_field ''response'')
         (logfile (snd (loop_run (scripted_env [reply rescue_text]) sample_texts
                          (sample_args 1 None) empty_world)))
       = [JObj [(''next_thought'', JStr ''x''), (''notes'', JObj [])]]
   \<and> parse_model_json sample_loads rescue_text \<noteq> Inl (parse_error_message rescue_text)"
proof (intro conjI)
  show "sample_loads rescue_text = None" by code_simp
  show "extract_json_object rescue_text = None" by code_simp
  show "map (record_field ''response'')
         (logfile (snd (baseline_run (scripted_env [reply rescue_text]) sample_texts
                          (sample_args 1 None) empty_world)))
       = [JObj [(''next_thought'', JStr ''x''), (''notes'', JObj [])]]"
    by code_simp
  show "map (record_field ''response'')
         (logfile (snd (loop_run (scripted_env [reply rescue_text]) sample_texts
                          (sample_args 1 None) empty_world)))
       = [JObj [(''next_thought'', JStr ''x''), (''notes'', JObj [])]]"
    by code_simp
  have "parse_model_json sample_loads rescue_text
          = Inr (JObj [(''next_thought'', JStr ''x''), (''notes'', JObj [])])"
    by code_simp
  then show "parse_model_json sample_loads rescue_text \<noteq> Inl (parse_error_message rescue_text)"
    by simp
qed

subsection \<open>Thought history\<close>

lemma py_strip_Nil: "py_strip [] = []"
  by (simp add: py_strip_def strip_with_def)

lemma thoughts_respond_thoughts:
  "map_sum id thoughts (fst (thoughts_respond env a step cur cl dt raw st w))
     = Inr (if next_thought_of env raw \<noteq> [] then thoughts st @ [next_thought_of env raw]
            else thoughts st)"
proof (cases "parse_or_error (json_loads env) raw")
  case (JObj d)
  then show ?thesis
    by (cases "map_of d ''next_thought''")
       (simp_all add: thoughts_respond_def next_thought_of_def Let_def dict_get_def py_str_def
          py_strip_Nil)
qed (simp_all add: thoughts_respond_def next_thought_of_def Let_def)

lemma thoughts_iteration_respond:
  assumes "thoughts_iteration env tx a step st w = (Inr st', w')"
  shows "\<exists>cur cl dt raw w1. thoughts_respond env a step cur cl dt raw st w1 = (Inr st', w')"
  using assms
  by (auto simp: thoughts_iteration_def ollama_chat_eq split: prod.splits sum.splits) blast

lemma thoughts_iteration_grows:
  assumes "thoughts_iteration env tx a step st w = (Inr st', w')"
  shows "prefix (thoughts st) (thoughts st') \<and> length (thoughts st') \<le> Suc (length (thoughts st))"
proof -
  from thoughts_iteration_respond[OF assms] obtain cur cl dt raw w1
    where r: "thoughts_respond env a step cur cl dt raw st w1 = (Inr st', w')" by blast
  have "map_sum id thoughts (fst (thoughts_respond env a step cur cl dt raw st w1))
          = Inr (if next_thought_of env raw \<noteq> [] then thoughts st @ [next_thought_of env raw]
                 else thoughts st)"
    by (rule thoughts_respond_thoughts)
  then have "thoughts st' = (if next_thought_of env raw \<noteq> [] then thoughts st @ [next_thought_of env raw]
                 else thoughts st)"
    by (simp add: r)
  then show ?thesis by simp
qed

lemma thoughts_range_grows:
  "for_range (thoughts_iteration env tx a) ks st w = (Inr st', w') \<Longrightarrow>
   prefix (thoughts st) (thoughts st')"
proof (induction ks arbitrary: st w)
  case Nil
  then show ?case by simp
next
  case (Cons k ks)
  show ?case
  proof (cases "thoughts_iteration env tx a k st w")
    case (Pair r v)
    show ?thesis
    proof (cases r)
      case (Inl e)
      with Pair Cons.prems show ?thesis by simp
    next
      case (Inr s1)
      with Pair Cons.prems have "for_range (thoughts_iteration env tx a) ks s1 v = (Inr st', w')"
        by simp
      then have "prefix (thoughts s1) (thoughts st')" by (rule Cons.IH)
      moreover have "prefix (thoughts st) (thoughts s1)"
        using thoughts_iteration_grows[of env tx a k st w s1 v] Pair Inr by simp
      ultimately show ?thesis by (rule prefix_order.trans[rotated])
    qed
  qed
qed

text \<open>
  C5. A step of the stepwise run always completes its update, and the thought history
  after it is the history before it with the \<^verbatim>\<open>next_thought\<close> of the response appended
  (its string conversion, trimmed) exactly when that text is not empty; when it is
  empty or missing the history is unchanged. So over one iteration the history grows
  by at most one entry and the old history is a prefix of the new one, and over any
  sequence of completed iterations the starting history is a prefix of the final one:
  nothing stored is ever dropped.
\<close>

theorem thought_history_append_only:
  "map_sum id thoughts (fst (thoughts_respond env a step cur cl dt raw st w))
     = Inr (if next_thought_of env raw \<noteq> [] then thoughts st @ [next_thought_of env raw]
            else thoughts st)
   \<and> (thoughts_iteration env tx a step st w = (Inr st1, w1) \<longrightarrow>
        prefix (thoughts st) (thoughts st1)
        \<and> length (thoughts st1) \<le> Suc (length (thoughts st)))
   \<and> (for_range (thoughts_iteration env tx a) ks st w = (Inr st2, w2) \<longrightarrow>
        prefix (thoughts st) (thoughts st2))"
proof (intro conjI impI)
  show "map_sum id thoughts (fst (thoughts_respond env a step cur cl dt raw st w))
     = Inr (if next_thought_of env raw \<noteq> [] then thoughts st @ [next_thought_of env raw]
            else thoughts st)"
    by (rule thoughts_respond_thoughts)
next
  assume h: "thoughts_iteration env tx a step st w = (Inr st1, w1)"
  show "prefix (thoughts st) (thoughts st1)" using thoughts_iteration_grows[OF h] by simp
  show "length (thoughts st1) \<le> Suc (length (thoughts st))"
    using thoughts_iteration_grows[OF h] by simp
next
  assume "for_range (thoughts_iteration env tx a) ks st w = (Inr st2, w2)"
  then show "prefix (thoughts st) (thoughts st2)" by (rule thoughts_range_grows)
qed

theorem thought_history_append_only_witness:
  "map_sum id thoughts
     (fst (thoughts_iteration (scripted_env [reply thought_text, reply ''oops'']) sample_texts
             (sample_args 2 None) 0
             \<lparr>prior_notes = initial_notes, current_scenario = ''S'', thoughts = [''t1'']\<rparr>
             empty_world))
     = Inr [''t1'', ''check power'']
   \<and> map_sum id thoughts
     (fst (for_range (thoughts_iteration (scripted_env [reply thought_text, reply ''oops'']) sample_texts
             (sample_args 2 None)) [0, 1]
             \<lparr>prior_notes = initial_notes, current_scenario = ''S'', thoughts = [''t1'']\<rparr>
             empty_world))
     = Inr [''t1'', ''check power'']
   \<and> prefix [''t1''] [''t1'', ''check power'']"
proof -
  let ?E = "scripted_env [reply thought_text, reply ''oops'']"
  let ?A = "sample_args 2 None"
  let ?st = "\<lparr>prior_notes = initial_notes, current_scenario = ''S'', thoughts = [''t1'']\<rparr>"
  have "case thoughts_iteration ?E sample_texts ?A 0 ?st empty_world of
          (Inr s, v) \<Rightarrow> thoughts s = [''t1'', ''check power''] | (Inl e, v) \<Rightarrow> False"
    by code_simp
  then obtain s1 v1 where i1: "thoughts_iteration ?E sample_texts ?A 0 ?st empty_world = (Inr s1, v1)"
    and t1: "thoughts s1 = [''t1'', ''check power'']"
    by (auto split: prod.splits sum.splits)
  have "case for_range (thoughts_iteration ?E sample_texts ?A) [0, 1] ?st empty_world of
          (Inr s, v) \<Rightarrow> thoughts s = [''t1'', ''check power''] | (Inl e, v) \<Rightarrow> False"
    by code_simp
  then obtain s2 v2 where i2: "for_range (thoughts_iteration ?E sample_texts ?A) [0, 1] ?st empty_world = (Inr s2, v2)"
    and t2: "thoughts s2 = [''t1'', ''check power'']"
    by (auto split: prod.splits sum.splits)
  note a = thought_history_append_only[of ?E ?A 0 _ _ _ _ ?st empty_world sample_texts s1 v1 "[0, 1]" s2 v2,
      THEN conjunct2, THEN conjunct1, rule_format, OF i1]
  note b = thought_history_append_only[of ?E ?A 0 _ _ _ _ ?st empty_world sample_texts s1 v1 "[0, 1]" s2 v2,
      THEN conjunct2, THEN conjunct2, rule_format, OF i2]
  have c1: "map_sum id thoughts (fst (thoughts_iteration ?E sample_texts ?A 0 ?st empty_world))
              = Inr [''t1'', ''check power'']"
    unfolding i1 by (simp add: t1)
  have c2: "map_sum id thoughts
              (fst (for_range (thoughts_iteration ?E sample_texts ?A) [0, 1] ?st empty_world))
              = Inr [''t1'', ''check power'']"
    unfolding i2 by (simp add: t2)
  have c3: "prefix [''t1''] [''t1'', ''check power'']"
    using a b by (simp add: t1 t2)
  from c1 c2 c3 show ?thesis by (intro conjI)
qed

subsection \<open>Perturbation\<close>

lemma prompt_scenario_loop:
  "prompt_scenario (chat_payload m (loop_messages tx c p) t sd j) c"
  by (simp add: prompt_scenario_def chat_payload_def loop_messages_def startswith_def)

lemma prompt_scenario_thoughts:
  "prompt_scenario (chat_payload m (thoughts_messages tx c h) t sd j) c"
  by (simp add: prompt_scenario_def chat_payload_def thoughts_messages_def startswith_def)

lemma notes_case:
  "(case (case v of JObj d \<Rightarrow> dict_get d ''notes'' (JObj []) | _ \<Rightarrow> JObj []) of
      JObj n \<Rightarrow> f n
    | _ \<Rightarrow> z)
   = (case v of
        JObj d \<Rightarrow> (case dict_get d ''notes'' (JObj []) of JObj n \<Rightarrow> f n | _ \<Rightarrow> z)
      | _ \<Rightarrow> f [])"
  by (cases v) simp_all

lemma loop_respond_world:
  "logfile (snd (loop_respond env a k cur cl dt raw prior w))
     = logfile w @ [last (logfile (snd (loop_respond env a k cur cl dt raw prior w)))]
   \<and> sent (snd (loop_respond env a k cur cl dt raw prior w)) = sent w
   \<and> record_field ''iteration'' (last (logfile (snd (loop_respond env a k cur cl dt raw prior w))))
       = JInt (int k)
   \<and> record_field ''scenario'' (last (logfile (snd (loop_respond env a k cur cl dt raw prior w))))
       = JStr cur
   \<and> record_field ''change_log'' (last (logfile (snd (loop_respond env a k cur cl dt raw prior w))))
       = JStr cl
   \<and> record_field ''prior_notes'' (last (logfile (snd (loop_respond env a k cur cl dt raw prior w))))
       = JObj (loop_notes env raw prior)
   \<and> record_field ''response'' (last (logfile (snd (loop_respond env a k cur cl dt raw prior w))))
       = parse_or_error (json_loads env) raw"
  by (simp add: loop_respond_def Let_def log_jsonl_def record_field_def dict_get_def
        loop_notes_def notes_case split: sum.splits)

lemma loop_respond_state:
  "fst (loop_respond env a k cur cl dt raw prior w) = Inr st' \<Longrightarrow>
   st' = \<lparr>prior_notes = loop_notes env raw prior, current_scenario = cur\<rparr>"
  by (simp add: loop_respond_def Let_def loop_notes_def notes_case split: sum.splits)

lemma loop_iteration_Inr_E:
  assumes "loop_iteration env tx a k st w = (Inr st', w')"
  shows "\<exists>p raw. render_prior (prior_notes st) = Inr p
     \<and> loop_respond env a k (fst (loop_perturb a k (current_scenario st)))
          (snd (loop_perturb a k (current_scenario st))) (elapsed env (length (sent w))) raw
          (prior_notes st)
          (w\<lparr>sent := sent w @ [chat_payload (model a)
               (loop_messages tx (fst (loop_perturb a k (current_scenario st))) p)
               (temperature a) (seed a) True]\<rparr>) = (Inr st', w')"
  using assms
  by (auto simp: loop_iteration_def ollama_chat_eq split: prod.splits sum.splits)

lemma thoughts_respond_world:
  "logfile (snd (thoughts_respond env a k cur cl dt raw st w))
     = logfile w @ [last (logfile (snd (thoughts_respond env a k cur cl dt raw st w)))]
   \<and> sent (snd (thoughts_respond env a k cur cl dt raw st w)) = sent w
   \<and> record_field ''step'' (last (logfile (snd (thoughts_respond env a k cur cl dt raw st w))))
       = JInt (int k)
   \<and> record_field ''scenario'' (last (logfile (snd (thoughts_respond env a k cur cl dt raw st w))))
       = JStr cur
   \<and> record_field ''change_log'' (last (logfile (snd (thoughts_respond env a k cur cl dt raw st w))))
       = JStr cl
   \<and> record_field ''prior_notes'' (last (logfile (snd (thoughts_respond env a k cur cl dt raw st w))))
       = JObj (thoughts_notes env raw (prior_notes st))"
  by (simp add: thoughts_respond_def Let_def log_jsonl_def record_field_def dict_get_def
        thoughts_notes_def)

lemma thoughts_respond_state:
  "fst (thoughts_respond env a k cur cl dt raw st w) = Inr st' \<Longrightarrow>
   prior_notes st' = thoughts_notes env raw (prior_notes st) \<and> current_scenario st' = cur"
  by (auto simp: thoughts_respond_def Let_def thoughts_notes_def)

lemma thoughts_iteration_Inr_E:
  assumes "thoughts_iteration env tx a k st w = (Inr st', w')"
  shows "\<exists>raw. thoughts_respond env a k (fst (thoughts_perturb a k (current_scenario st)))
          (snd (thoughts_perturb a k (current_scenario st))) (elapsed env (length (sent w))) raw st
          (w\<lparr>sent := sent w @ [chat_payload (model a)
               (thoughts_messages tx (fst (thoughts_perturb a k (current_scenario st)))
                  (render_thought_history (thoughts st) (history_window a)))
               (temperature a) (seed a) True]\<rparr>) = (Inr st', w')"
  using assms
  by (auto simp: thoughts_iteration_def ollama_chat_eq split: prod.splits sum.splits)

lemma loop_iteration_Inl_E:
  assumes "loop_iteration env tx a k st w = (Inl e, w')"
  shows "w' = w
     \<or> (\<exists>req. w' = w\<lparr>sent := sent w @ [req]\<rparr>)
     \<or> (\<exists>p raw. w' = snd (loop_respond env a k (fst (loop_perturb a k (current_scenario st)))
          (snd (loop_perturb a k (current_scenario st))) (elapsed env (length (sent w))) raw
          (prior_notes st)
          (w\<lparr>sent := sent w @ [chat_payload (model a)
               (loop_messages tx (fst (loop_perturb a k (current_scenario st))) p)
               (temperature a) (seed a) True]\<rparr>)))"
proof (cases "render_prior (prior_notes st)")
  case (Inl e1)
  with assms show ?thesis by (simp add: loop_iteration_def split: prod.splits)
next
  case (Inr p)
  let ?c = "fst (loop_perturb a k (current_scenario st))"
  let ?req = "chat_payload (model a) (loop_messages tx ?c p) (temperature a) (seed a) True"
  show ?thesis
  proof (cases "fst (ollama_chat env (model a) (loop_messages tx ?c p) (temperature a) (seed a) True w)")
    case (Inl e2)
    with assms Inr have "w' = w\<lparr>sent := sent w @ [?req]\<rparr>"
      by (auto simp: loop_iteration_def ollama_chat_eq split: prod.splits sum.splits)
    then show ?thesis by blast
  next
    case raw: (Inr raw)
    with assms Inr have "w' = snd (loop_respond env a k ?c
          (snd (loop_perturb a k (current_scenario st))) (elapsed env (length (sent w))) raw
          (prior_notes st) (w\<lparr>sent := sent w @ [?req]\<rparr>))"
      by (auto simp: loop_iteration_def ollama_chat_eq split: prod.splits sum.splits)
    then show ?thesis by blast
  qed
qed

lemma thoughts_iteration_Inl_E:
  assumes "thoughts_iteration env tx a k st w = (Inl e, w')"
  shows "\<exists>req. w' = w\<lparr>sent := sent w @ [req]\<rparr>"
  using assms
  by (auto simp: thoughts_iteration_def ollama_chat_eq thoughts_respond_def Let_def
        split: prod.splits sum.splits)

text \<open>
  What a completed iteration leaves behind, and what an aborted one leaves, in the form
  the invariant of the run uses.
\<close>

lemma loop_iteration_completed:
  assumes "loop_iteration env tx a k st w = (Inr st', w')"
  shows "\<exists>rec req. logfile w' = logfile w @ [rec] \<and> sent w' = sent w @ [req]
          \<and> iteration_trace ''iteration'' k (fst (loop_perturb a k (current_scenario st)))
               (snd (loop_perturb a k (current_scenario st))) rec req
          \<and> current_scenario st' = fst (loop_perturb a k (current_scenario st))"
proof -
  let ?c = "fst (loop_perturb a k (current_scenario st))"
  let ?cl = "snd (loop_perturb a k (current_scenario st))"
  from loop_iteration_Inr_E[OF assms] obtain p raw where
    r: "loop_respond env a k ?c ?cl (elapsed env (length (sent w))) raw (prior_notes st)
          (w\<lparr>sent := sent w @ [chat_payload (model a) (loop_messages tx ?c p)
               (temperature a) (seed a) True]\<rparr>) = (Inr st', w')"
    by blast
  note wd = loop_respond_world[of env a k ?c ?cl "elapsed env (length (sent w))" raw "prior_notes st"
      "w\<lparr>sent := sent w @ [chat_payload (model a) (loop_messages tx ?c p)
               (temperature a) (seed a) True]\<rparr>", unfolded r, simplified]
  have st: "current_scenario st' = ?c"
    using loop_respond_state[of env a k ?c ?cl "elapsed env (length (sent w))" raw "prior_notes st"
      "w\<lparr>sent := sent w @ [chat_payload (model a) (loop_messages tx ?c p)
               (temperature a) (seed a) True]\<rparr>" st'] r by simp
  have "logfile w' = logfile w @ [last (logfile w')]
        \<and> sent w' = sent w @ [chat_payload (model a) (loop_messages tx ?c p) (temperature a) (seed a) True]
        \<and> iteration_trace ''iteration'' k ?c ?cl (last (logfile w'))
             (chat_payload (model a) (loop_messages tx ?c p) (temperature a) (seed a) True)
        \<and> current_scenario st' = ?c"
    using wd st by (simp add: iteration_trace_def prompt_scenario_loop)
  then show ?thesis by blast
qed

lemma thoughts_iteration_completed:
  assumes "thoughts_iteration env tx a k st w = (Inr st', w')"
  shows "\<exists>rec req. logfile w' = logfile w @ [rec] \<and> sent w' = sent w @ [req]
          \<and> iteration_trace ''step'' k (fst (thoughts_perturb a k (current_scenario st)))
               (snd (thoughts_perturb a k (current_scenario st))) rec req
          \<and> current_scenario st' = fst (thoughts_perturb a k (current_scenario st))"
proof -
  let ?c = "fst (thoughts_perturb a k (current_scenario st))"
  let ?cl = "snd (thoughts_perturb a k (current_scenario st))"
  let ?req = "chat_payload (model a)
               (thoughts_messages tx ?c (render_thought_history (thoughts st) (history_window a)))
               (temperature a) (seed a) True"
  from thoughts_iteration_Inr_E[OF assms] obtain raw where
    r: "thoughts_respond env a k ?c ?cl (elapsed env (length (sent w))) raw st
          (w\<lparr>sent := sent w @ [?req]\<rparr>) = (Inr st', w')"
    by blast
  note wd = thoughts_respond_world[of env a k ?c ?cl "elapsed env (length (sent w))" raw st
      "w\<lparr>sent := sent w @ [?req]\<rparr>", unfolded r, simplified]
  have st: "current_scenario st' = ?c"
    using thoughts_respond_state[of env a k ?c ?cl "elapsed env (length (sent w))" raw st
      "w\<lparr>sent := sent w @ [?req]\<rparr>" st'] r by simp
  have "logfile w' = logfile w @ [last (logfile w')]
        \<and> sent w' = sent w @ [?req]
        \<and> iteration_trace ''step'' k ?c ?cl (last (logfile w')) ?req
        \<and> current_scenario st' = ?c"
    using wd st by (simp add: iteration_trace_def prompt_scenario_thoughts)
  then show ?thesis by blast
qed

lemma loop_iteration_failed:
  assumes "loop_iteration env tx a k st w = (Inl e, w')"
  shows "(logfile w' = logfile w \<and> prefix (sent w) (sent w'))
       \<or> (\<exists>rec req. logfile w' = logfile w @ [rec] \<and> sent w' = sent w @ [req]
            \<and> iteration_trace ''iteration'' k (fst (loop_perturb a k (current_scenario st)))
                 (snd (loop_perturb a k (current_scenario st))) rec req)"
proof -
  let ?c = "fst (loop_perturb a k (current_scenario st))"
  let ?cl = "snd (loop_perturb a k (current_scenario st))"
  from loop_iteration_Inl_E[OF assms]
  consider "w' = w" | req where "w' = w\<lparr>sent := sent w @ [req]\<rparr>"
    | p raw where "w' = snd (loop_respond env a k ?c ?cl (elapsed env (length (sent w))) raw
          (prior_notes st)
          (w\<lparr>sent := sent w @ [chat_payload (model a) (loop_messages tx ?c p)
               (temperature a) (seed a) True]\<rparr>))"
    by blast
  then show ?thesis
  proof cases
    case 1
    then show ?thesis by simp
  next
    case 2
    then show ?thesis by simp
  next
    case 3
    note wd = loop_respond_world[of env a k ?c ?cl "elapsed env (length (sent w))" raw "prior_notes st"
      "w\<lparr>sent := sent w @ [chat_payload (model a) (loop_messages tx ?c p)
               (temperature a) (seed a) True]\<rparr>", folded 3, simplified]
    have "logfile w' = logfile w @ [last (logfile w')]
        \<and> sent w' = sent w @ [chat_payload (model a) (loop_messages tx ?c p) (temperature a) (seed a) True]
        \<and> iteration_trace ''iteration'' k ?c ?cl (last (logfile w'))
             (chat_payload (model a) (loop_messages tx ?c p) (temperature a) (seed a) True)"
      using wd by (simp add: iteration_trace_def prompt_scenario_loop)
    then show ?thesis by blast
  qed
qed

lemma thoughts_iteration_failed:
  assumes "thoughts_iteration env tx a k st w = (Inl e, w')"
  shows "(logfile w' = logfile w \<and> prefix (sent w) (sent w'))
       \<or> (\<exists>rec req. logfile w' = logfile w @ [rec] \<and> sent w' = sent w @ [req]
            \<and> iteration_trace ''step'' k (fst (thoughts_perturb a k (current_scenario st)))
                 (snd (thoughts_perturb a k (current_scenario st))) rec req)"
  using thoughts_iteration_Inl_E[OF assms] by auto

lemma perturbation_visible_mono:
  assumes "perturbation_visible idx (scenario_at base frag p) p reqs k rec"
  shows "perturbation_visible idx (scenario_at base frag p) p (reqs @ extra) k rec"
  using assms by (simp add: perturbation_visible_def nth_append)

lemma trace_visible:
  assumes tr: "iteration_trace idx k c cl rec req"
    and c: "c = (if k = p then base @ frag else cur)"
    and cl: "cl = (if k = p then chg else [])"
    and cur: "cur = (if p < k then base @ frag else base)"
    and f2: "chg \<noteq> []"
    and len: "length reqs = k"
  shows "perturbation_visible idx (scenario_at base frag p) p (reqs @ [req]) k rec"
proof -
  have s: "c = scenario_at base frag p k"
    using c cur by (cases "k = p") (auto simp: scenario_at_def)
  have l: "(cl \<noteq> []) = (k = p)" using cl f2 by simp
  have n: "(reqs @ [req]) ! k = req" using len by (simp add: nth_append)
  show ?thesis
    using tr l len
    by (simp add: perturbation_visible_def iteration_trace_def n s[symmetric])
qed

lemma next_scenario:
  assumes c: "c = (if k = p then base @ frag else cur)"
    and cur: "cur = (if p < k then base @ frag else base)"
  shows "c = (if p < Suc k then base @ frag else base)"
  using assms by (cases "k = p") auto

lemma perturbation_run:
  fixes body :: "nat \<Rightarrow> 'z loop_state_scheme \<Rightarrow> world \<Rightarrow> (pyexc + 'z loop_state_scheme) \<times> world"
  assumes run: "for_range body [0 ..< n] st0 w0 = (r, w)"
    and init: "current_scenario st0 = base"
    and comp: "\<And>k s v s' v'. body k s v = (Inr s', v') \<Longrightarrow>
        \<exists>rec req. logfile v' = logfile v @ [rec] \<and> sent v' = sent v @ [req]
          \<and> iteration_trace idx k (fst (pert k (current_scenario s)))
               (snd (pert k (current_scenario s))) rec req
          \<and> current_scenario s' = fst (pert k (current_scenario s))"
    and fail: "\<And>k s v e v'. body k s v = (Inl e, v') \<Longrightarrow>
        (logfile v' = logfile v \<and> prefix (sent v) (sent v'))
        \<or> (\<exists>rec req. logfile v' = logfile v @ [rec] \<and> sent v' = sent v @ [req]
              \<and> iteration_trace idx k (fst (pert k (current_scenario s)))
                   (snd (pert k (current_scenario s))) rec req)"
    and pert: "\<And>k c. pert k c = (if k = p then (base @ frag, chg) else (c, []))"
    and f2: "chg \<noteq> []"
  shows "indexed_all (perturbation_visible idx (scenario_at base frag p) p (drop (length (sent w0)) (sent w)))
           (drop (length (logfile w0)) (logfile w))"
proof -
  define cur where "cur = (\<lambda>k. if p < k then base @ frag else base)"
  define I where "I = (\<lambda>(k::nat) (s::'z loop_state_scheme) (v::world).
     \<exists>recs reqs. logfile v = logfile w0 @ recs \<and> sent v = sent w0 @ reqs
        \<and> length recs = k \<and> length reqs = k
        \<and> (\<forall>j<k. perturbation_visible idx (scenario_at base frag p) p reqs j (recs ! j))
        \<and> current_scenario s = cur k)"
  define F where "F = (\<lambda>(e::pyexc) (v::world).
     \<exists>recs reqs. logfile v = logfile w0 @ recs \<and> sent v = sent w0 @ reqs
        \<and> (\<forall>j<length recs. perturbation_visible idx (scenario_at base frag p) p reqs j (recs ! j)))"
  have fstp: "fst (pert k c) = (if k = p then base @ frag else c)"
    and sndp: "snd (pert k c) = (if k = p then chg else [])" for k c
    by (simp_all add: pert)
  have extend: "\<forall>j<Suc k. perturbation_visible idx (scenario_at base frag p) p (reqs @ [req]) j ((recs @ [rec]) ! j)"
    if prev: "\<forall>j<k. perturbation_visible idx (scenario_at base frag p) p reqs j (recs ! j)"
      and lr: "length recs = k" "length reqs = k"
      and tr: "iteration_trace idx k (fst (pert k (cur k))) (snd (pert k (cur k))) rec req"
    for k recs reqs rec req
  proof (intro allI impI)
    fix j assume "j < Suc k"
    then consider "j < k" | "j = k" by linarith
    then show "perturbation_visible idx (scenario_at base frag p) p (reqs @ [req]) j ((recs @ [rec]) ! j)"
    proof cases
      case 1
      then have "perturbation_visible idx (scenario_at base frag p) p reqs j (recs ! j)" using prev by simp
      then have "perturbation_visible idx (scenario_at base frag p) p (reqs @ [req]) j (recs ! j)"
        by (rule perturbation_visible_mono)
      then show ?thesis using 1 lr by (simp add: nth_append)
    next
      case 2
      have "perturbation_visible idx (scenario_at base frag p) p (reqs @ [req]) k rec"
        by (rule trace_visible[OF tr fstp sndp _ f2 lr(2)]) (simp add: cur_def)
      then show ?thesis using 2 lr by (simp add: nth_append)
    qed
  qed
  have init': "I 0 st0 w0" by (simp add: I_def cur_def init)
  have step: "I (Suc k) s' v'" if i: "I k s v" and b: "body k s v = (Inr s', v')" for k s v s' v'
  proof -
    from i obtain recs reqs where
      l: "logfile v = logfile w0 @ recs" and sn: "sent v = sent w0 @ reqs"
      and lr: "length recs = k" "length reqs = k"
      and prev: "\<forall>j<k. perturbation_visible idx (scenario_at base frag p) p reqs j (recs ! j)"
      and cs: "current_scenario s = cur k"
      unfolding I_def by blast
    from comp[OF b] obtain rec req where
      l': "logfile v' = logfile v @ [rec]" and sn': "sent v' = sent v @ [req]"
      and tr: "iteration_trace idx k (fst (pert k (current_scenario s)))
               (snd (pert k (current_scenario s))) rec req"
      and cs': "current_scenario s' = fst (pert k (current_scenario s))"
      by blast
    have ex: "\<forall>j<Suc k. perturbation_visible idx (scenario_at base frag p) p (reqs @ [req]) j ((recs @ [rec]) ! j)"
      by (rule extend[OF prev lr]) (use tr cs in simp)
    have nc: "current_scenario s' = cur (Suc k)"
      unfolding cs' cs cur_def
      by (rule next_scenario[OF fstp]) simp
    show ?thesis
      unfolding I_def
    proof (intro exI conjI)
      show "logfile v' = logfile w0 @ (recs @ [rec])" by (simp add: l' l)
      show "sent v' = sent w0 @ (reqs @ [req])" by (simp add: sn' sn)
      show "length (recs @ [rec]) = Suc k" by (simp add: lr)
      show "length (reqs @ [req]) = Suc k" by (simp add: lr)
      show "\<forall>j<Suc k. perturbation_visible idx (scenario_at base frag p) p (reqs @ [req]) j ((recs @ [rec]) ! j)"
        by (rule ex)
      show "current_scenario s' = cur (Suc k)" by (rule nc)
    qed
  qed
  have failed: "F e v'" if i: "I k s v" and b: "body k s v = (Inl e, v')" for k s v e v'
  proof -
    from i obtain recs reqs where
      l: "logfile v = logfile w0 @ recs" and sn: "sent v = sent w0 @ reqs"
      and lr: "length recs = k" "length reqs = k"
      and prev: "\<forall>j<k. perturbation_visible idx (scenario_at base frag p) p reqs j (recs ! j)"
      and cs: "current_scenario s = cur k"
      unfolding I_def by blast
    from fail[OF b] show ?thesis
    proof (elim disjE conjE exE)
      assume same: "logfile v' = logfile v" and pre: "prefix (sent v) (sent v')"
      from pre obtain extra where m: "sent v' = sent v @ extra" by (auto simp: prefix_def)
      have "\<forall>j<length recs. perturbation_visible idx (scenario_at base frag p) p (reqs @ extra) j (recs ! j)"
        using prev lr perturbation_visible_mono by blast
      moreover have "logfile v' = logfile w0 @ recs" by (simp add: same l)
      moreover have "sent v' = sent w0 @ (reqs @ extra)" by (simp add: m sn)
      ultimately show ?thesis unfolding F_def by blast
    next
      fix rec req
      assume l': "logfile v' = logfile v @ [rec]" and sn': "sent v' = sent v @ [req]"
        and tr: "iteration_trace idx k (fst (pert k (current_scenario s)))
               (snd (pert k (current_scenario s))) rec req"
      have ex: "\<forall>j<Suc k. perturbation_visible idx (scenario_at base frag p) p (reqs @ [req]) j ((recs @ [rec]) ! j)"
        by (rule extend[OF prev lr]) (use tr cs in simp)
      then have "\<forall>j<length (recs @ [rec]).
                   perturbation_visible idx (scenario_at base frag p) p (reqs @ [req]) j ((recs @ [rec]) ! j)"
        by (simp add: lr)
      moreover have "logfile v' = logfile w0 @ (recs @ [rec])" by (simp add: l' l)
      moreover have "sent v' = sent w0 @ (reqs @ [req])" by (simp add: sn' sn)
      ultimately show ?thesis unfolding F_def by blast
    qed
  qed
  have both: "(\<forall>s'. r = Inr s' \<longrightarrow> I n s' w) \<and> (\<forall>e. r = Inl e \<longrightarrow> F e w)"
    using for_range_invariant[of body 0 n st0 w0 r w I F, OF run init'] step failed by blast
  have "\<exists>recs reqs. logfile w = logfile w0 @ recs \<and> sent w = sent w0 @ reqs
        \<and> (\<forall>j<length recs. perturbation_visible idx (scenario_at base frag p) p reqs j (recs ! j))"
  proof (cases r)
    case (Inl e)
    with both have "F e w" by simp
    then show ?thesis unfolding F_def .
  next
    case (Inr s')
    with both have "I n s' w" by simp
    then show ?thesis unfolding I_def by blast
  qed
  then obtain recs reqs where "logfile w = logfile w0 @ recs" "sent w = sent w0 @ reqs"
    "\<forall>j<length recs. perturbation_visible idx (scenario_at base frag p) p reqs j (recs ! j)" by blast
  then show ?thesis
    by (simp add: indexed_all_def list_all_iff)
qed

lemma sublist_fragment: "sublist ptext (base @ pre @ ptext)"
proof -
  have "sublist ptext ((base @ pre) @ ptext)" by (rule sublist_append_leftI)
  then show ?thesis by simp
qed

text \<open>
  C4. With the perturbation index \<open>p\<close> configured (a 0-based index), every record that a
  refinement or stepwise run appends, and the request posted for it, show the
  perturbation as follows. The record number \<open>k\<close> carries the index \<open>k\<close>; its change
  log is non-empty exactly when \<open>k = p\<close>, so the perturbation fires at the iteration
  \<open>p\<close> and at no other, hence at most once; the scenario in the record, which is also
  the scenario the prompt of the iteration opens with, is the base scenario for
  \<open>k < p\<close> and the base scenario followed by the change-log fragment for every
  \<open>k \<ge> p\<close>. When the base scenario does not already contain the perturbation text,
  the scenario in effect at \<open>k\<close> therefore contains the perturbation text exactly when
  \<open>k \<ge> p\<close>. This holds for every run, also one that aborts: it is stated of the
  records and requests the run has added.
\<close>

theorem perturbation_fires_once_and_persists:
  assumes at: "perturb_at a = Some (int p)"
  shows "indexed_all
           (perturbation_visible ''iteration'' (scenario_at (scenario a) (loop_fragment a p) p) p
              (drop (length (sent w0)) (sent (snd (loop_run env tx a w0)))))
           (drop (length (logfile w0)) (logfile (snd (loop_run env tx a w0))))
         \<and> indexed_all
           (perturbation_visible ''step'' (scenario_at (scenario a) (thoughts_fragment a p) p) p
              (drop (length (sent w0)) (sent (snd (thoughts_run env tx a w0)))))
           (drop (length (logfile w0)) (logfile (snd (thoughts_run env tx a w0))))
         \<and> (\<not> sublist (perturb_text a) (scenario a) \<longrightarrow>
              (\<forall>k. sublist (perturb_text a) (scenario_at (scenario a) (loop_fragment a p) p k)
                     = (p \<le> k))
              \<and> (\<forall>k. sublist (perturb_text a) (scenario_at (scenario a) (thoughts_fragment a p) p k)
                     = (p \<le> k)))"
proof (intro conjI impI allI)
  let ?frag = "loop_fragment a p"
  let ?note = "''CHANGE LOG applied at iteration '' @ str_nat p @ '': '' @ perturb_text a"
  have run: "for_range (loop_iteration env tx a) [0 ..< nat (iterations a)] (loop_init a) w0
               = (fst (loop_run env tx a w0), snd (loop_run env tx a w0))"
    by (simp add: loop_run_def)
  have pert: "loop_perturb a k c = (if k = p then (scenario a @ ?frag, ?note) else (c, []))" for k c
    by (auto simp: loop_perturb_def loop_fragment_def at)
  have f2: "?note \<noteq> []" by simp
  show "indexed_all
           (perturbation_visible ''iteration'' (scenario_at (scenario a) (loop_fragment a p) p) p
              (drop (length (sent w0)) (sent (snd (loop_run env tx a w0)))))
           (drop (length (logfile w0)) (logfile (snd (loop_run env tx a w0))))"
  proof (rule perturbation_run[where body = "loop_iteration env tx a" and pert = "loop_perturb a"
        and base = "scenario a" and frag = ?frag and chg = ?note, OF run])
    show "current_scenario (loop_init a) = scenario a" by (simp add: loop_init_def)
  next
    fix k s v s' v'
    assume "loop_iteration env tx a k s v = (Inr s', v')"
    then show "\<exists>rec req. logfile v' = logfile v @ [rec] \<and> sent v' = sent v @ [req]
          \<and> iteration_trace ''iteration'' k (fst (loop_perturb a k (current_scenario s)))
               (snd (loop_perturb a k (current_scenario s))) rec req
          \<and> current_scenario s' = fst (loop_perturb a k (current_scenario s))"
      by (rule loop_iteration_completed)
  next
    fix k s v e v'
    assume "loop_iteration env tx a k s v = (Inl e, v')"
    then show "(logfile v' = logfile v \<and> prefix (sent v) (sent v'))
        \<or> (\<exists>rec req. logfile v' = logfile v @ [rec] \<and> sent v' = sent v @ [req]
              \<and> iteration_trace ''iteration'' k (fst (loop_perturb a k (current_scenario s)))
                   (snd (loop_perturb a k (current_scenario s))) rec req)"
      by (rule loop_iteration_failed)
  next
    fix k c
    show "loop_perturb a k c = (if k = p then (scenario a @ ?frag, ?note) else (c, []))"
      by (rule pert)
  next
    show "?note \<noteq> []" by (rule f2)
  qed
next
  let ?frag = "thoughts_fragment a p"
  let ?note = "''CHANGE LOG applied at step '' @ str_nat p @ '': '' @ perturb_text a"
  have run: "for_range (thoughts_iteration env tx a) [0 ..< nat (iterations a)] (thoughts_init a) w0
               = (fst (thoughts_run env tx a w0), snd (thoughts_run env tx a w0))"
    by (simp add: thoughts_run_def)
  have pert: "thoughts_perturb a k c = (if k = p then (scenario a @ ?frag, ?note) else (c, []))" for k c
    by (auto simp: thoughts_perturb_def thoughts_fragment_def at)
  have f2: "?note \<noteq> []" by simp
  show "indexed_all
           (perturbation_visible ''step'' (scenario_at (scenario a) (thoughts_fragment a p) p) p
              (drop (length (sent w0)) (sent (snd (thoughts_run env tx a w0)))))
           (drop (length (logfile w0)) (logfile (snd (thoughts_run env tx a w0))))"
  proof (rule perturbation_run[where body = "thoughts_iteration env tx a" and pert = "thoughts_perturb a"
        and base = "scenario a" and frag = ?frag and chg = ?note, OF run])
    show "current_scenario (thoughts_init a) = scenario a" by (simp add: thoughts_init_def)
  next
    fix k s v s' v'
    assume "thoughts_iteration env tx a k s v = (Inr s', v')"
    then show "\<exists>rec req. logfile v' = logfile v @ [rec] \<and> sent v' = sent v @ [req]
          \<and> iteration_trace ''step'' k (fst (thoughts_perturb a k (current_scenario s)))
               (snd (thoughts_perturb a k (current_scenario s))) rec req
          \<and> current_scenario s' = fst (thoughts_perturb a k (current_scenario s))"
      by (rule thoughts_iteration_completed)
  next
    fix k s v e v'
    assume "thoughts_iteration env tx a k s v = (Inl e, v')"
    then show "(logfile v' = logfile v \<and> prefix (sent v) (sent v'))
        \<or> (\<exists>rec req. logfile v' = logfile v @ [rec] \<and> sent v' = sent v @ [req]
              \<and> iteration_trace ''step'' k (fst (thoughts_perturb a k (current_scenario s)))
                   (snd (thoughts_perturb a k (current_scenario s))) rec req)"
      by (rule thoughts_iteration_failed)
  next
    fix k c
    show "thoughts_perturb a k c = (if k = p then (scenario a @ ?frag, ?note) else (c, []))"
      by (rule pert)
  next
    show "?note \<noteq> []" by (rule f2)
  qed
next
  fix k
  assume fresh: "\<not> sublist (perturb_text a) (scenario a)"
  have "sublist (perturb_text a) (scenario a @ loop_fragment a p)"
    using sublist_fragment[of "perturb_text a" "scenario a"
        "[CHR 0x0A, CHR 0x0A] @ ''CHANGE LOG (Iteration '' @ str_nat p @ ''): ''"]
    by (simp add: loop_fragment_def)
  with fresh show "sublist (perturb_text a) (scenario_at (scenario a) (loop_fragment a p) p k)
                     = (p \<le> k)"
    by (auto simp: scenario_at_def)
next
  fix k
  assume fresh: "\<not> sublist (perturb_text a) (scenario a)"
  have "sublist (perturb_text a) (scenario a @ thoughts_fragment a p)"
    using sublist_fragment[of "perturb_text a" "scenario a"
        "[CHR 0x0A, CHR 0x0A] @ ''CHANGE LOG (step '' @ str_nat p @ ''): ''"]
    by (simp add: thoughts_fragment_def)
  with fresh show "sublist (perturb_text a) (scenario_at (scenario a) (thoughts_fragment a p) p k)
                     = (p \<le> k)"
    by (auto simp: scenario_at_def)
qed

theorem perturbation_fires_once_and_persists_witness:
  "perturb_at (sample_args 3 (Some 1)) = Some (int 1)
   \<and> \<not> sublist (perturb_text (sample_args 3 (Some 1))) (scenario (sample_args 3 (Some 1)))
   \<and> indexed_all
        (perturbation_visible ''iteration''
           (scenario_at (scenario (sample_args 3 (Some 1))) (loop_fragment (sample_args 3 (Some 1)) 1) 1) 1
           (drop (length (sent empty_world)) (sent (snd (loop_run (scripted_env [reply ok_text, reply ok_text, reply ok_text])
          sample_texts (sample_args 3 (Some 1)) empty_world)))))
        (drop (length (logfile empty_world)) (logfile (snd (loop_run (scripted_env [reply ok_text, reply ok_text, reply ok_text])
          sample_texts (sample_args 3 (Some 1)) empty_world))))
   \<and> indexed_all
        (perturbation_visible ''step''
           (scenario_at (scenario (sample_args 3 (Some 1))) (thoughts_fragment (sample_args 3 (Some 1)) 1) 1) 1
           (drop (length (sent empty_world)) (sent (snd (thoughts_run (scripted_env [reply ok_text, reply ok_text, reply ok_text])
          sample_texts (sample_args 3 (Some 1)) empty_world)))))
        (drop (length (logfile empty_world)) (logfile (snd (thoughts_run (scripted_env [reply ok_text, reply ok_text, reply ok_text])
          sample_texts (sample_args 3 (Some 1)) empty_world))))
   \<and> sublist (perturb_text (sample_args 3 (Some 1)))
        (scenario_at (scenario (sample_args 3 (Some 1))) (loop_fragment (sample_args 3 (Some 1)) 1) 1 0) = (1 \<le> (0::nat))
   \<and> sublist (perturb_text (sample_args 3 (Some 1)))
        (scenario_at (scenario (sample_args 3 (Some 1))) (loop_fragment (sample_args 3 (Some 1)) 1) 1 2) = (1 \<le> (2::nat))
   \<and> sublist (perturb_text (sample_args 3 (Some 1)))
        (scenario_at (scenario (sample_args 3 (Some 1))) (thoughts_fragment (sample_args 3 (Some 1)) 1) 1 0) = (1 \<le> (0::nat))
   \<and> sublist (perturb_text (sample_args 3 (Some 1)))
        (scenario_at (scenario (sample_args 3 (Some 1))) (thoughts_fragment (sample_args 3 (Some 1)) 1) 1 2) = (1 \<le> (2::nat))
   \<and> map (record_field ''scenario'') (logfile (snd (loop_run (scripted_env [reply ok_text, reply ok_text, reply ok_text])
          sample_texts (sample_args 3 (Some 1)) empty_world)))
      = [JStr ''A Mars habitat loses power.'',
         JStr (''A Mars habitat loses power.'' @ [CHR 0x0A, CHR 0x0A]
               @ ''CHANGE LOG (Iteration 1): X happened''),
         JStr (''A Mars habitat loses power.'' @ [CHR 0x0A, CHR 0x0A]
               @ ''CHANGE LOG (Iteration 1): X happened'')]
   \<and> map (record_field ''change_log'') (logfile (snd (loop_run (scripted_env [reply ok_text, reply ok_text, reply ok_text])
          sample_texts (sample_args 3 (Some 1)) empty_world)))
      = [JStr [], JStr ''CHANGE LOG applied at iteration 1: X happened'', JStr []]"
proof -
  have h1: "perturb_at (sample_args 3 (Some 1)) = Some (int 1)"
    by (simp add: sample_args_def)
  have h2: "\<not> sublist (perturb_text (sample_args 3 (Some 1))) (scenario (sample_args 3 (Some 1)))"
    by code_simp
  have c1: "map (record_field ''scenario'') (logfile (snd (loop_run (scripted_env [reply ok_text, reply ok_text, reply ok_text])
          sample_texts (sample_args 3 (Some 1)) empty_world)))
      = [JStr ''A Mars habitat loses power.'',
         JStr (''A Mars habitat loses power.'' @ [CHR 0x0A, CHR 0x0A]
               @ ''CHANGE LOG (Iteration 1): X happened''),
         JStr (''A Mars habitat loses power.'' @ [CHR 0x0A, CHR 0x0A]
               @ ''CHANGE LOG (Iteration 1): X happened'')]"
    by code_simp
  have c2: "map (record_field ''change_log'') (logfile (snd (loop_run (scripted_env [reply ok_text, reply ok_text, reply ok_text])
          sample_texts (sample_args 3 (Some 1)) empty_world)))
      = [JStr [], JStr ''CHANGE LOG applied at iteration 1: X happened'', JStr []]"
    by code_simp
  note t = perturbation_fires_once_and_persists[OF h1,
      of empty_world "scripted_env [reply ok_text, reply ok_text, reply ok_text]" sample_texts]
  note u = t[THEN conjunct2, THEN conjunct2, rule_format, OF h2]
  from h1 h2 t u c1 c2 show ?thesis by (intro conjI) blast+
qed

subsection \<open>Notes in the record\<close>

lemma loop_iteration_logged:
  assumes run: "loop_iteration env tx a k st w = (r, w')"
    and logged: "logfile w' \<noteq> logfile w"
  shows "\<exists>pr d raw. render_prior (prior_notes st) = Inr pr
     \<and> http_post env (length (sent w))
          (chat_payload (model a)
             (loop_messages tx (fst (loop_perturb a k (current_scenario st))) pr)
             (temperature a) (seed a) True) = Body d
     \<and> chat_content d = Inr raw
     \<and> loop_respond env a k (fst (loop_perturb a k (current_scenario st)))
          (snd (loop_perturb a k (current_scenario st))) (elapsed env (length (sent w))) raw
          (prior_notes st)
          (w\<lparr>sent := sent w @ [chat_payload (model a)
               (loop_messages tx (fst (loop_perturb a k (current_scenario st))) pr)
               (temperature a) (seed a) True]\<rparr>) = (r, w')"
  using assms
  by (auto simp: loop_iteration_def ollama_chat_eq split: prod.splits sum.splits http_result.splits)

lemma thoughts_iteration_logged:
  assumes run: "thoughts_iteration env tx a k st w = (r, w')"
    and logged: "logfile w' \<noteq> logfile w"
  shows "\<exists>d raw.
       http_post env (length (sent w))
          (chat_payload (model a)
             (thoughts_messages tx (fst (thoughts_perturb a k (current_scenario st)))
                (render_thought_history (thoughts st) (history_window a)))
             (temperature a) (seed a) True) = Body d
     \<and> chat_content d = Inr raw
     \<and> thoughts_respond env a k (fst (thoughts_perturb a k (current_scenario st)))
          (snd (thoughts_perturb a k (current_scenario st))) (elapsed env (length (sent w))) raw st
          (w\<lparr>sent := sent w @ [chat_payload (model a)
               (thoughts_messages tx (fst (thoughts_perturb a k (current_scenario st)))
                  (render_thought_history (thoughts st) (history_window a)))
               (temperature a) (seed a) True]\<rparr>) = (r, w')"
  using assms
  by (auto simp: thoughts_iteration_def ollama_chat_eq split: prod.splits sum.splits http_result.splits)

lemma iteration_record_notes:
  "(loop_iteration env tx a k st w = (r, w') \<and> logfile w' \<noteq> logfile w \<longrightarrow>
      (\<exists>pr d raw.
          render_prior (prior_notes st) = Inr pr
          \<and> req_messages (last (sent w'))
              = loop_messages tx (fst (loop_perturb a k (current_scenario st))) pr
          \<and> http_post env (length (sent w)) (last (sent w')) = Body d
          \<and> chat_content d = Inr raw
          \<and> record_field ''response'' (last (logfile w')) = parse_or_error (json_loads env) raw
          \<and> record_field ''prior_notes'' (last (logfile w'))
              = JObj (loop_notes env raw (prior_notes st))
          \<and> (\<forall>st'. r = Inr st' \<longrightarrow> prior_notes st' = loop_notes env raw (prior_notes st))))
   \<and> (thoughts_iteration env tx a k ts v = (q, v') \<and> logfile v' \<noteq> logfile v \<longrightarrow>
      (\<exists>d raw.
          req_messages (last (sent v'))
              = thoughts_messages tx (fst (thoughts_perturb a k (current_scenario ts)))
                  (render_thought_history (thoughts ts) (history_window a))
          \<and> http_post env (length (sent v)) (last (sent v')) = Body d
          \<and> chat_content d = Inr raw
          \<and> record_field ''prior_notes'' (last (logfile v'))
              = JObj (thoughts_notes env raw (prior_notes ts))
          \<and> (\<forall>ts'. q = Inr ts' \<longrightarrow> prior_notes ts' = thoughts_notes env raw (prior_notes ts))))"
proof (intro conjI impI)
  assume h: "loop_iteration env tx a k st w = (r, w') \<and> logfile w' \<noteq> logfile w"
  let ?cur = "fst (loop_perturb a k (current_scenario st))"
  let ?cl = "snd (loop_perturb a k (current_scenario st))"
  from h obtain pr d raw where pr: "render_prior (prior_notes st) = Inr pr"
    and post: "http_post env (length (sent w))
          (chat_payload (model a) (loop_messages tx ?cur pr) (temperature a) (seed a) True) = Body d"
    and raw: "chat_content d = Inr raw"
    and resp: "loop_respond env a k ?cur ?cl (elapsed env (length (sent w))) raw (prior_notes st)
          (w\<lparr>sent := sent w @ [chat_payload (model a) (loop_messages tx ?cur pr)
               (temperature a) (seed a) True]\<rparr>) = (r, w')"
    using loop_iteration_logged[of env tx a k st w r w'] by blast
  let ?w1 = "w\<lparr>sent := sent w @ [chat_payload (model a) (loop_messages tx ?cur pr)
               (temperature a) (seed a) True]\<rparr>"
  note wd = loop_respond_world[of env a k ?cur ?cl "elapsed env (length (sent w))" raw
      "prior_notes st" ?w1]
  have sn: "sent w' = sent w @ [chat_payload (model a) (loop_messages tx ?cur pr)
               (temperature a) (seed a) True]"
    using wd resp by simp
  have l: "last (sent w') = chat_payload (model a) (loop_messages tx ?cur pr)
               (temperature a) (seed a) True"
    by (simp add: sn)
  have m: "req_messages (last (sent w')) = loop_messages tx ?cur pr"
    by (simp add: l chat_payload_def)
  have p2: "http_post env (length (sent w)) (last (sent w')) = Body d"
    using post by (simp add: l)
  have f1: "record_field ''response'' (last (logfile w')) = parse_or_error (json_loads env) raw"
    using wd resp by simp
  have f2: "record_field ''prior_notes'' (last (logfile w'))
              = JObj (loop_notes env raw (prior_notes st))"
    using wd resp by simp
  have f3: "\<forall>st'. r = Inr st' \<longrightarrow> prior_notes st' = loop_notes env raw (prior_notes st)"
  proof (intro allI impI)
    fix st' assume "r = Inr st'"
    then have "fst (loop_respond env a k ?cur ?cl (elapsed env (length (sent w))) raw
        (prior_notes st) ?w1) = Inr st'"
      using resp by simp
    from loop_respond_state[OF this] show "prior_notes st' = loop_notes env raw (prior_notes st)"
      by simp
  qed
  show "\<exists>pr d raw.
          render_prior (prior_notes st) = Inr pr
          \<and> req_messages (last (sent w'))
              = loop_messages tx (fst (loop_perturb a k (current_scenario st))) pr
          \<and> http_post env (length (sent w)) (last (sent w')) = Body d
          \<and> chat_content d = Inr raw
          \<and> record_field ''response'' (last (logfile w')) = parse_or_error (json_loads env) raw
          \<and> record_field ''prior_notes'' (last (logfile w'))
              = JObj (loop_notes env raw (prior_notes st))
          \<and> (\<forall>st'. r = Inr st' \<longrightarrow> prior_notes st' = loop_notes env raw (prior_notes st))"
    using pr m p2 raw f1 f2 f3 by (intro exI conjI)
next
  assume h: "thoughts_iteration env tx a k ts v = (q, v') \<and> logfile v' \<noteq> logfile v"
  let ?cur = "fst (thoughts_perturb a k (current_scenario ts))"
  let ?cl = "snd (thoughts_perturb a k (current_scenario ts))"
  let ?msgs = "thoughts_messages tx ?cur (render_thought_history (thoughts ts) (history_window a))"
  let ?v1 = "v\<lparr>sent := sent v @ [chat_payload (model a) ?msgs (temperature a) (seed a) True]\<rparr>"
  from h obtain d raw where
    post: "http_post env (length (sent v))
          (chat_payload (model a) ?msgs (temperature a) (seed a) True) = Body d"
    and raw: "chat_content d = Inr raw"
    and resp: "thoughts_respond env a k ?cur ?cl (elapsed env (length (sent v))) raw ts ?v1
                 = (q, v')"
    using thoughts_iteration_logged[of env tx a k ts v q v'] by blast
  note wd = thoughts_respond_world[of env a k ?cur ?cl "elapsed env (length (sent v))" raw ts ?v1]
  have sn: "sent v' = sent v @ [chat_payload (model a) ?msgs (temperature a) (seed a) True]"
    using wd resp by simp
  have l: "last (sent v') = chat_payload (model a) ?msgs (temperature a) (seed a) True"
    by (simp add: sn)
  have m: "req_messages (last (sent v')) = ?msgs"
    by (simp add: l chat_payload_def)
  have p2: "http_post env (length (sent v)) (last (sent v')) = Body d"
    using post by (simp add: l)
  have f2: "record_field ''prior_notes'' (last (logfile v'))
              = JObj (thoughts_notes env raw (prior_notes ts))"
    using wd resp by simp
  have f3: "\<forall>ts'. q = Inr ts' \<longrightarrow> prior_notes ts' = thoughts_notes env raw (prior_notes ts)"
  proof (intro allI impI)
    fix ts' assume "q = Inr ts'"
    then have "fst (thoughts_respond env a k ?cur ?cl (elapsed env (length (sent v))) raw ts ?v1)
                 = Inr ts'"
      using resp by simp
    from thoughts_respond_state[OF this]
    show "prior_notes ts' = thoughts_notes env raw (prior_notes ts)" by simp
  qed
  show "\<exists>d raw.
          req_messages (last (sent v'))
              = thoughts_messages tx (fst (thoughts_perturb a k (current_scenario ts)))
                  (render_thought_history (thoughts ts) (history_window a))
          \<and> http_post env (length (sent v)) (last (sent v')) = Body d
          \<and> chat_content d = Inr raw
          \<and> record_field ''prior_notes'' (last (logfile v'))
              = JObj (thoughts_notes env raw (prior_notes ts))
          \<and> (\<forall>ts'. q = Inr ts' \<longrightarrow> prior_notes ts' = thoughts_notes env raw (prior_notes ts))"
    using m p2 raw f2 f3 by (intro exI conjI)
qed

text \<open>
  C10. Whenever an iteration of the refinement or stepwise run has persisted a record,
  the \<^verbatim>\<open>prior_notes\<close> field of that record is the Notes state after the update: the
  Notes computed from the reply the iteration itself received (the one the endpoint
  returned for the request the iteration posted), which is also the state the
  iteration hands on when it completes. The prompt of the iteration was built before
  that: in refinement mode it renders the Notes the iteration started with, and in
  stepwise mode it is built from the scenario and the thought history alone. Over two
  consecutive refinement iterations, the Notes rendered into the prompt of the second
  are the \<^verbatim>\<open>prior_notes\<close> of the record of the first.
\<close>

theorem record_holds_updated_notes:
  "(loop_iteration env tx a k st w = (r, w') \<and> logfile w' \<noteq> logfile w \<longrightarrow>
      (\<exists>pr d raw.
          render_prior (prior_notes st) = Inr pr
          \<and> req_messages (last (sent w'))
              = loop_messages tx (fst (loop_perturb a k (current_scenario st))) pr
          \<and> http_post env (length (sent w)) (last (sent w')) = Body d
          \<and> chat_content d = Inr raw
          \<and> record_field ''response'' (last (logfile w')) = parse_or_error (json_loads env) raw
          \<and> record_field ''prior_notes'' (last (logfile w'))
              = JObj (loop_notes env raw (prior_notes st))
          \<and> (\<forall>st'. r = Inr st' \<longrightarrow> prior_notes st' = loop_notes env raw (prior_notes st))))
   \<and> (thoughts_iteration env tx a k ts v = (q, v') \<and> logfile v' \<noteq> logfile v \<longrightarrow>
      (\<exists>d raw.
          req_messages (last (sent v'))
              = thoughts_messages tx (fst (thoughts_perturb a k (current_scenario ts)))
                  (render_thought_history (thoughts ts) (history_window a))
          \<and> http_post env (length (sent v)) (last (sent v')) = Body d
          \<and> chat_content d = Inr raw
          \<and> record_field ''prior_notes'' (last (logfile v'))
              = JObj (thoughts_notes env raw (prior_notes ts))
          \<and> (\<forall>ts'. q = Inr ts' \<longrightarrow> prior_notes ts' = thoughts_notes env raw (prior_notes ts))))
   \<and> (loop_iteration env tx a j s0 u0 = (Inr s1, u1)
        \<and> loop_iteration env tx a (Suc j) s1 u1 = (r2, u2) \<and> logfile u2 \<noteq> logfile u1 \<longrightarrow>
      (\<exists>pr.
          record_field ''prior_notes'' (last (logfile u1)) = JObj (prior_notes s1)
          \<and> render_prior (prior_notes s1) = Inr pr
          \<and> req_messages (last (sent u2))
              = loop_messages tx (fst (loop_perturb a (Suc j) (current_scenario s1))) pr))"
proof (intro conjI)
  show "loop_iteration env tx a k st w = (r, w') \<and> logfile w' \<noteq> logfile w \<longrightarrow>
      (\<exists>pr d raw.
          render_prior (prior_notes st) = Inr pr
          \<and> req_messages (last (sent w'))
              = loop_messages tx (fst (loop_perturb a k (current_scenario st))) pr
          \<and> http_post env (length (sent w)) (last (sent w')) = Body d
          \<and> chat_content d = Inr raw
          \<and> record_field ''response'' (last (logfile w')) = parse_or_error (json_loads env) raw
          \<and> record_field ''prior_notes'' (last (logfile w'))
              = JObj (loop_notes env raw (prior_notes st))
          \<and> (\<forall>st'. r = Inr st' \<longrightarrow> prior_notes st' = loop_notes env raw (prior_notes st)))"
    by (rule iteration_record_notes[THEN conjunct1])
next
  show "thoughts_iteration env tx a k ts v = (q, v') \<and> logfile v' \<noteq> logfile v \<longrightarrow>
      (\<exists>d raw.
          req_messages (last (sent v'))
              = thoughts_messages tx (fst (thoughts_perturb a k (current_scenario ts)))
                  (render_thought_history (thoughts ts) (history_window a))
          \<and> http_post env (length (sent v)) (last (sent v')) = Body d
          \<and> chat_content d = Inr raw
          \<and> record_field ''prior_notes'' (last (logfile v'))
              = JObj (thoughts_notes env raw (prior_notes ts))
          \<and> (\<forall>ts'. q = Inr ts' \<longrightarrow> prior_notes ts' = thoughts_notes env raw (prior_notes ts)))"
    by (rule iteration_record_notes[THEN conjunct2])
next
  show "loop_iteration env tx a j s0 u0 = (Inr s1, u1)
        \<and> loop_iteration env tx a (Suc j) s1 u1 = (r2, u2) \<and> logfile u2 \<noteq> logfile u1 \<longrightarrow>
      (\<exists>pr.
          record_field ''prior_notes'' (last (logfile u1)) = JObj (prior_notes s1)
          \<and> render_prior (prior_notes s1) = Inr pr
          \<and> req_messages (last (sent u2))
              = loop_messages tx (fst (loop_perturb a (Suc j) (current_scenario s1))) pr)"
  proof (intro impI, elim conjE)
    assume i1: "loop_iteration env tx a j s0 u0 = (Inr s1, u1)"
      and i2: "loop_iteration env tx a (Suc j) s1 u1 = (r2, u2)"
      and lg: "logfile u2 \<noteq> logfile u1"
    from loop_iteration_completed[OF i1] have lg1: "logfile u1 \<noteq> logfile u0" by auto
    from iteration_record_notes[THEN conjunct1, rule_format, of env tx a j s0 u0 "Inr s1" u1]
      i1 lg1
    obtain raw where
      "record_field ''prior_notes'' (last (logfile u1)) = JObj (loop_notes env raw (prior_notes s0))"
      "prior_notes s1 = loop_notes env raw (prior_notes s0)"
      by blast
    then have rec: "record_field ''prior_notes'' (last (logfile u1)) = JObj (prior_notes s1)"
      by simp
    from iteration_record_notes[THEN conjunct1, rule_format, of env tx a "Suc j" s1 u1 r2 u2]
      i2 lg
    obtain pr where "render_prior (prior_notes s1) = Inr pr"
      "req_messages (last (sent u2))
         = loop_messages tx (fst (loop_perturb a (Suc j) (current_scenario s1))) pr"
      by blast
    with rec show "\<exists>pr.
          record_field ''prior_notes'' (last (logfile u1)) = JObj (prior_notes s1)
          \<and> render_prior (prior_notes s1) = Inr pr
          \<and> req_messages (last (sent u2))
              = loop_messages tx (fst (loop_perturb a (Suc j) (current_scenario s1))) pr"
      by blast
  qed
qed

theorem record_holds_updated_notes_witness:
  "logfile (snd (loop_iteration (scripted_env [reply ok_text]) sample_texts (sample_args 1 None) 0
          \<lparr>prior_notes = sample_notes, current_scenario = scenario (sample_args 1 None)\<rparr> empty_world)) \<noteq> logfile empty_world
   \<and> (\<exists>pr d raw.
          render_prior (prior_notes \<lparr>prior_notes = sample_notes, current_scenario = scenario (sample_args 1 None)\<rparr>) = Inr pr
          \<and> req_messages (last (sent (snd (loop_iteration (scripted_env [reply ok_text]) sample_texts (sample_args 1 None) 0
          \<lparr>prior_notes = sample_notes, current_scenario = scenario (sample_args 1 None)\<rparr> empty_world))))
              = loop_messages sample_texts
                  (fst (loop_perturb (sample_args 1 None) 0 (current_scenario \<lparr>prior_notes = sample_notes, current_scenario = scenario (sample_args 1 None)\<rparr>))) pr
          \<and> http_post (scripted_env [reply ok_text]) (length (sent empty_world)) (last (sent (snd (loop_iteration (scripted_env [reply ok_text]) sample_texts (sample_args 1 None) 0
          \<lparr>prior_notes = sample_notes, current_scenario = scenario (sample_args 1 None)\<rparr> empty_world)))) = Body d
          \<and> chat_content d = Inr raw
          \<and> record_field ''response'' (last (logfile (snd (loop_iteration (scripted_env [reply ok_text]) sample_texts (sample_args 1 None) 0
          \<lparr>prior_notes = sample_notes, current_scenario = scenario (sample_args 1 None)\<rparr> empty_world))))
              = parse_or_error (json_loads (scripted_env [reply ok_text])) raw
          \<and> record_field ''prior_notes'' (last (logfile (snd (loop_iteration (scripted_env [reply ok_text]) sample_texts (sample_args 1 None) 0
          \<lparr>prior_notes = sample_notes, current_scenario = scenario (sample_args 1 None)\<rparr> empty_world))))
              = JObj (loop_notes (scripted_env [reply ok_text]) raw (prior_notes \<lparr>prior_notes = sample_notes, current_scenario = scenario (sample_args 1 None)\<rparr>))
          \<and> (\<forall>st'. fst (loop_iteration (scripted_env [reply ok_text]) sample_texts (sample_args 1 None) 0
          \<lparr>prior_notes = sample_notes, current_scenario = scenario (sample_args 1 None)\<rparr> empty_world) = Inr st' \<longrightarrow>
                 prior_notes st' = loop_notes (scripted_env [reply ok_text]) raw (prior_notes \<lparr>prior_notes = sample_notes, current_scenario = scenario (sample_args 1 None)\<rparr>)))
   \<and> logfile (snd (thoughts_iteration (scripted_env [reply ok_text]) sample_texts (sample_args 1 None) 0
          \<lparr>prior_notes = sample_notes, current_scenario = scenario (sample_args 1 None), thoughts = []\<rparr> empty_world)) \<noteq> logfile empty_world
   \<and> (\<exists>d raw.
          req_messages (last (sent (snd (thoughts_iteration (scripted_env [reply ok_text]) sample_texts (sample_args 1 None) 0
          \<lparr>prior_notes = sample_notes, current_scenario = scenario (sample_args 1 None), thoughts = []\<rparr> empty_world))))
              = thoughts_messages sample_texts
                  (fst (thoughts_perturb (sample_args 1 None) 0 (current_scenario \<lparr>prior_notes = sample_notes, current_scenario = scenario (sample_args 1 None), thoughts = []\<rparr>)))
                  (render_thought_history (thoughts \<lparr>prior_notes = sample_notes, current_scenario = scenario (sample_args 1 None), thoughts = []\<rparr>) (history_window (sample_args 1 None)))
          \<and> http_post (scripted_env [reply ok_text]) (length (sent empty_world)) (last (sent (snd (thoughts_iteration (scripted_env [reply ok_text]) sample_texts (sample_args 1 None) 0
          \<lparr>prior_notes = sample_notes, current_scenario = scenario (sample_args 1 None), thoughts = []\<rparr> empty_world)))) = Body d
          \<and> chat_content d = Inr raw
          \<and> record_field ''prior_notes'' (last (logfile (snd (thoughts_iteration (scripted_env [reply ok_text]) sample_texts (sample_args 1 None) 0
          \<lparr>prior_notes = sample_notes, current_scenario = scenario (sample_args 1 None), thoughts = []\<rparr> empty_world))))
              = JObj (thoughts_notes (scripted_env [reply ok_text]) raw (prior_notes \<lparr>prior_notes = sample_notes, current_scenario = scenario (sample_args 1 None), thoughts = []\<rparr>))
          \<and> (\<forall>ts'. fst (thoughts_iteration (scripted_env [reply ok_text]) sample_texts (sample_args 1 None) 0
          \<lparr>prior_notes = sample_notes, current_scenario = scenario (sample_args 1 None), thoughts = []\<rparr> empty_world) = Inr ts' \<longrightarrow>
                 prior_notes ts' = thoughts_notes (scripted_env [reply ok_text]) raw (prior_notes \<lparr>prior_notes = sample_notes, current_scenario = scenario (sample_args 1 None), thoughts = []\<rparr>)))
   \<and> req_messages (last (sent (snd (loop_iteration (scripted_env [reply ok_text]) sample_texts (sample_args 1 None) 0
          \<lparr>prior_notes = sample_notes, current_scenario = scenario (sample_args 1 None)\<rparr> empty_world))))
        = loop_messages sample_texts ''A Mars habitat loses power.''
          (''PRIOR NOTES (compressed):'' @ [CHR 0x0A] @ ''Premises*: [kept]'' @ [CHR 0x0A]
           @ ''Hypotheses*: []'' @ [CHR 0x0A] @ ''Uncertainties*: []'' @ [CHR 0x0A] @ ''Plan_next*: []'' @ [CHR 0x0A])
   \<and> record_field ''prior_notes'' (last (logfile (snd (loop_iteration (scripted_env [reply ok_text]) sample_texts (sample_args 1 None) 0
          \<lparr>prior_notes = sample_notes, current_scenario = scenario (sample_args 1 None)\<rparr> empty_world))))
        = JObj [(''premises'', JArr [JStr ''p1'']), (''hypotheses'', JArr []),
              (''uncertainties'', JArr []), (''plan_next'', JArr [])]
   \<and> record_field ''prior_notes'' (last (logfile (snd (thoughts_iteration (scripted_env [reply ok_text]) sample_texts (sample_args 1 None) 0
          \<lparr>prior_notes = sample_notes, current_scenario = scenario (sample_args 1 None), thoughts = []\<rparr> empty_world))))
        = JObj [(''premises'', JArr [JStr ''p1'']), (''hypotheses'', JArr []),
              (''uncertainties'', JArr []), (''plan_next'', JArr [])]
   \<and> loop_iteration (scripted_env [reply ok_text, reply ''oops'']) sample_texts (sample_args 2 None) 0
          (loop_init (sample_args 2 None)) empty_world
        = (Inr \<lparr>prior_notes = [(''premises'', JArr [JStr ''p1'']), (''hypotheses'', JArr []),
              (''uncertainties'', JArr []), (''plan_next'', JArr [])],
            current_scenario = ''A Mars habitat loses power.''\<rparr>,
           snd (loop_iteration (scripted_env [reply ok_text, reply ''oops'']) sample_texts (sample_args 2 None) 0
          (loop_init (sample_args 2 None)) empty_world))
   \<and> logfile (snd (loop_iteration (scripted_env [reply ok_text, reply ''oops'']) sample_texts (sample_args 2 None) (Suc 0)
          \<lparr>prior_notes = [(''premises'', JArr [JStr ''p1'']), (''hypotheses'', JArr []),
              (''uncertainties'', JArr []), (''plan_next'', JArr [])],
            current_scenario = ''A Mars habitat loses power.''\<rparr>
          (snd (loop_iteration (scripted_env [reply ok_text, reply ''oops'']) sample_texts (sample_args 2 None) 0
          (loop_init (sample_args 2 None)) empty_world)))) \<noteq> logfile (snd (loop_iteration (scripted_env [reply ok_text, reply ''oops'']) sample_texts (sample_args 2 None) 0
          (loop_init (sample_args 2 None)) empty_world))
   \<and> (\<exists>pr.
          record_field ''prior_notes'' (last (logfile (snd (loop_iteration (scripted_env [reply ok_text, reply ''oops'']) sample_texts (sample_args 2 None) 0
          (loop_init (sample_args 2 None)) empty_world))))
            = JObj (prior_notes \<lparr>prior_notes = [(''premises'', JArr [JStr ''p1'']), (''hypotheses'', JArr []),
              (''uncertainties'', JArr []), (''plan_next'', JArr [])],
            current_scenario = ''A Mars habitat loses power.''\<rparr>)
          \<and> render_prior (prior_notes \<lparr>prior_notes = [(''premises'', JArr [JStr ''p1'']), (''hypotheses'', JArr []),
              (''uncertainties'', JArr []), (''plan_next'', JArr [])],
            current_scenario = ''A Mars habitat loses power.''\<rparr>) = Inr pr
          \<and> req_messages (last (sent (snd (loop_iteration (scripted_env [reply ok_text, reply ''oops'']) sample_texts (sample_args 2 None) (Suc 0)
          \<lparr>prior_notes = [(''premises'', JArr [JStr ''p1'']), (''hypotheses'', JArr []),
              (''uncertainties'', JArr []), (''plan_next'', JArr [])],
            current_scenario = ''A Mars habitat loses power.''\<rparr>
          (snd (loop_iteration (scripted_env [reply ok_text, reply ''oops'']) sample_texts (sample_args 2 None) 0
          (loop_init (sample_args 2 None)) empty_world))))))
              = loop_messages sample_texts
                  (fst (loop_perturb (sample_args 2 None) (Suc 0) (current_scenario \<lparr>prior_notes = [(''premises'', JArr [JStr ''p1'']), (''hypotheses'', JArr []),
              (''uncertainties'', JArr []), (''plan_next'', JArr [])],
            current_scenario = ''A Mars habitat loses power.''\<rparr>))) pr)
   \<and> req_messages (last (sent (snd (loop_iteration (scripted_env [reply ok_text, reply ''oops'']) sample_texts (sample_args 2 None) (Suc 0)
          \<lparr>prior_notes = [(''premises'', JArr [JStr ''p1'']), (''hypotheses'', JArr []),
              (''uncertainties'', JArr []), (''plan_next'', JArr [])],
            current_scenario = ''A Mars habitat loses power.''\<rparr>
          (snd (loop_iteration (scripted_env [reply ok_text, reply ''oops'']) sample_texts (sample_args 2 None) 0
          (loop_init (sample_args 2 None)) empty_world))))))
        = loop_messages sample_texts ''A Mars habitat loses power.''
          (''PRIOR NOTES (compressed):'' @ [CHR 0x0A] @ ''Premises*: [p1]'' @ [CHR 0x0A]
           @ ''Hypotheses*: []'' @ [CHR 0x0A] @ ''Uncertainties*: []'' @ [CHR 0x0A] @ ''Plan_next*: []'' @ [CHR 0x0A])
   \<and> record_field ''prior_notes'' (last (logfile (snd (loop_iteration (scripted_env [reply ok_text, reply ''oops'']) sample_texts (sample_args 2 None) (Suc 0)
          \<lparr>prior_notes = [(''premises'', JArr [JStr ''p1'']), (''hypotheses'', JArr []),
              (''uncertainties'', JArr []), (''plan_next'', JArr [])],
            current_scenario = ''A Mars habitat loses power.''\<rparr>
          (snd (loop_iteration (scripted_env [reply ok_text, reply ''oops'']) sample_texts (sample_args 2 None) 0
          (loop_init (sample_args 2 None)) empty_world))))))
        = JObj initial_notes"
proof -
  have hl: "logfile (snd (loop_iteration (scripted_env [reply ok_text]) sample_texts (sample_args 1 None) 0
          \<lparr>prior_notes = sample_notes, current_scenario = scenario (sample_args 1 None)\<rparr> empty_world)) \<noteq> logfile empty_world"
    by code_simp
  have ht: "logfile (snd (thoughts_iteration (scripted_env [reply ok_text]) sample_texts (sample_args 1 None) 0
          \<lparr>prior_notes = sample_notes, current_scenario = scenario (sample_args 1 None), thoughts = []\<rparr> empty_world)) \<noteq> logfile empty_world"
    by code_simp
  have c1: "req_messages (last (sent (snd (loop_iteration (scripted_env [reply ok_text]) sample_texts (sample_args 1 None) 0
          \<lparr>prior_notes = sample_notes, current_scenario = scenario (sample_args 1 None)\<rparr> empty_world))))
        = loop_messages sample_texts ''A Mars habitat loses power.''
          (''PRIOR NOTES (compressed):'' @ [CHR 0x0A] @ ''Premises*: [kept]'' @ [CHR 0x0A]
           @ ''Hypotheses*: []'' @ [CHR 0x0A] @ ''Uncertainties*: []'' @ [CHR 0x0A] @ ''Plan_next*: []'' @ [CHR 0x0A])"
    by code_simp
  have c2: "record_field ''prior_notes'' (last (logfile (snd (loop_iteration (scripted_env [reply ok_text]) sample_texts (sample_args 1 None) 0
          \<lparr>prior_notes = sample_notes, current_scenario = scenario (sample_args 1 None)\<rparr> empty_world))))
        = JObj [(''premises'', JArr [JStr ''p1'']), (''hypotheses'', JArr []),
              (''uncertainties'', JArr []), (''plan_next'', JArr [])]"
    by code_simp
  have c3: "record_field ''prior_notes'' (last (logfile (snd (thoughts_iteration (scripted_env [reply ok_text]) sample_texts (sample_args 1 None) 0
          \<lparr>prior_notes = sample_notes, current_scenario = scenario (sample_args 1 None), thoughts = []\<rparr> empty_world))))
        = JObj [(''premises'', JArr [JStr ''p1'']), (''hypotheses'', JArr []),
              (''uncertainties'', JArr []), (''plan_next'', JArr [])]"
    by code_simp
  have c4: "req_messages (last (sent (snd (loop_iteration (scripted_env [reply ok_text, reply ''oops'']) sample_texts (sample_args 2 None) (Suc 0)
          \<lparr>prior_notes = [(''premises'', JArr [JStr ''p1'']), (''hypotheses'', JArr []),
              (''uncertainties'', JArr []), (''plan_next'', JArr [])],
            current_scenario = ''A Mars habitat loses power.''\<rparr>
          (snd (loop_iteration (scripted_env [reply ok_text, reply ''oops'']) sample_texts (sample_args 2 None) 0
          (loop_init (sample_args 2 None)) empty_world))))))
        = loop_messages sample_texts ''A Mars habitat loses power.''
          (''PRIOR NOTES (compressed):'' @ [CHR 0x0A] @ ''Premises*: [p1]'' @ [CHR 0x0A]
           @ ''Hypotheses*: []'' @ [CHR 0x0A] @ ''Uncertainties*: []'' @ [CHR 0x0A] @ ''Plan_next*: []'' @ [CHR 0x0A])"
    by code_simp
  have c5: "record_field ''prior_notes'' (last (logfile (snd (loop_iteration (scripted_env [reply ok_text, reply ''oops'']) sample_texts (sample_args 2 None) (Suc 0)
          \<lparr>prior_notes = [(''premises'', JArr [JStr ''p1'']), (''hypotheses'', JArr []),
              (''uncertainties'', JArr []), (''plan_next'', JArr [])],
            current_scenario = ''A Mars habitat loses power.''\<rparr>
          (snd (loop_iteration (scripted_env [reply ok_text, reply ''oops'']) sample_texts (sample_args 2 None) 0
          (loop_init (sample_args 2 None)) empty_world))))))
        = JObj initial_notes"
    by code_simp
  have h0f: "fst (loop_iteration (scripted_env [reply ok_text, reply ''oops'']) sample_texts (sample_args 2 None) 0
          (loop_init (sample_args 2 None)) empty_world) = Inr \<lparr>prior_notes = [(''premises'', JArr [JStr ''p1'']), (''hypotheses'', JArr []),
              (''uncertainties'', JArr []), (''plan_next'', JArr [])],
            current_scenario = ''A Mars habitat loses power.''\<rparr>"
    by code_simp
  have h0: "loop_iteration (scripted_env [reply ok_text, reply ''oops'']) sample_texts (sample_args 2 None) 0
          (loop_init (sample_args 2 None)) empty_world
        = (Inr \<lparr>prior_notes = [(''premises'', JArr [JStr ''p1'']), (''hypotheses'', JArr []),
              (''uncertainties'', JArr []), (''plan_next'', JArr [])],
            current_scenario = ''A Mars habitat loses power.''\<rparr>,
           snd (loop_iteration (scripted_env [reply ok_text, reply ''oops'']) sample_texts (sample_args 2 None) 0
          (loop_init (sample_args 2 None)) empty_world))"
    using h0f by (simp add: prod_eq_iff)
  have len0: "length (logfile (snd (loop_iteration (scripted_env [reply ok_text, reply ''oops'']) sample_texts (sample_args 2 None) 0
          (loop_init (sample_args 2 None)) empty_world))) = 1"
    by code_simp
  have len1: "length (logfile (snd (loop_iteration (scripted_env [reply ok_text, reply ''oops'']) sample_texts (sample_args 2 None) (Suc 0)
          \<lparr>prior_notes = [(''premises'', JArr [JStr ''p1'']), (''hypotheses'', JArr []),
              (''uncertainties'', JArr []), (''plan_next'', JArr [])],
            current_scenario = ''A Mars habitat loses power.''\<rparr>
          (snd (loop_iteration (scripted_env [reply ok_text, reply ''oops'']) sample_texts (sample_args 2 None) 0
          (loop_init (sample_args 2 None)) empty_world))))) = 2"
    by code_simp
  have h1: "logfile (snd (loop_iteration (scripted_env [reply ok_text, reply ''oops'']) sample_texts (sample_args 2 None) (Suc 0)
          \<lparr>prior_notes = [(''premises'', JArr [JStr ''p1'']), (''hypotheses'', JArr []),
              (''uncertainties'', JArr []), (''plan_next'', JArr [])],
            current_scenario = ''A Mars habitat loses power.''\<rparr>
          (snd (loop_iteration (scripted_env [reply ok_text, reply ''oops'']) sample_texts (sample_args 2 None) 0
          (loop_init (sample_args 2 None)) empty_world)))) \<noteq> logfile (snd (loop_iteration (scripted_env [reply ok_text, reply ''oops'']) sample_texts (sample_args 2 None) 0
          (loop_init (sample_args 2 None)) empty_world))"
    using len0 len1 by auto
  note t = record_holds_updated_notes[of "scripted_env [reply ok_text]" sample_texts "sample_args 1 None" 0
      "\<lparr>prior_notes = sample_notes, current_scenario = scenario (sample_args 1 None)\<rparr>" empty_world
      "fst (loop_iteration (scripted_env [reply ok_text]) sample_texts (sample_args 1 None) 0
          \<lparr>prior_notes = sample_notes, current_scenario = scenario (sample_args 1 None)\<rparr> empty_world)"
      "snd (loop_iteration (scripted_env [reply ok_text]) sample_texts (sample_args 1 None) 0
          \<lparr>prior_notes = sample_notes, current_scenario = scenario (sample_args 1 None)\<rparr> empty_world)"
      "\<lparr>prior_notes = sample_notes, current_scenario = scenario (sample_args 1 None), thoughts = []\<rparr>" empty_world
      "fst (thoughts_iteration (scripted_env [reply ok_text]) sample_texts (sample_args 1 None) 0
          \<lparr>prior_notes = sample_notes, current_scenario = scenario (sample_args 1 None), thoughts = []\<rparr> empty_world)"
      "snd (thoughts_iteration (scripted_env [reply ok_text]) sample_texts (sample_args 1 None) 0
          \<lparr>prior_notes = sample_notes, current_scenario = scenario (sample_args 1 None), thoughts = []\<rparr> empty_world)"]
  note t3 = record_holds_updated_notes[where env = "scripted_env [reply ok_text, reply ''oops'']" and tx = sample_texts
      and a = "sample_args 2 None" and j = 0 and ?s0.0 = "loop_init (sample_args 2 None)" and ?u0.0 = empty_world
      and ?s1.0 = "\<lparr>prior_notes = [(''premises'', JArr [JStr ''p1'']), (''hypotheses'', JArr []),
              (''uncertainties'', JArr []), (''plan_next'', JArr [])],
            current_scenario = ''A Mars habitat loses power.''\<rparr>"
      and ?u1.0 = "snd (loop_iteration (scripted_env [reply ok_text, reply ''oops'']) sample_texts (sample_args 2 None) 0
          (loop_init (sample_args 2 None)) empty_world)"
      and ?r2.0 = "fst (loop_iteration (scripted_env [reply ok_text, reply ''oops'']) sample_texts (sample_args 2 None) (Suc 0)
          \<lparr>prior_notes = [(''premises'', JArr [JStr ''p1'']), (''hypotheses'', JArr []),
              (''uncertainties'', JArr []), (''plan_next'', JArr [])],
            current_scenario = ''A Mars habitat loses power.''\<rparr>
          (snd (loop_iteration (scripted_env [reply ok_text, reply ''oops'']) sample_texts (sample_args 2 None) 0
          (loop_init (sample_args 2 None)) empty_world)))"
      and ?u2.0 = "snd (loop_iteration (scripted_env [reply ok_text, reply ''oops'']) sample_texts (sample_args 2 None) (Suc 0)
          \<lparr>prior_notes = [(''premises'', JArr [JStr ''p1'']), (''hypotheses'', JArr []),
              (''uncertainties'', JArr []), (''plan_next'', JArr [])],
            current_scenario = ''A Mars habitat loses power.''\<rparr>
          (snd (loop_iteration (scripted_env [reply ok_text, reply ''oops'']) sample_texts (sample_args 2 None) 0
          (loop_init (sample_args 2 None)) empty_world)))"]
  have il: "(\<exists>pr d raw.
          render_prior (prior_notes \<lparr>prior_notes = sample_notes, current_scenario = scenario (sample_args 1 None)\<rparr>) = Inr pr
          \<and> req_messages (last (sent (snd (loop_iteration (scripted_env [reply ok_text]) sample_texts (sample_args 1 None) 0
          \<lparr>prior_notes = sample_notes, current_scenario = scenario (sample_args 1 None)\<rparr> empty_world))))
              = loop_messages sample_texts
                  (fst (loop_perturb (sample_args 1 None) 0 (current_scenario \<lparr>prior_notes = sample_notes, current_scenario = scenario (sample_args 1 None)\<rparr>))) pr
          \<and> http_post (scripted_env [reply ok_text]) (length (sent empty_world)) (last (sent (snd (loop_iteration (scripted_env [reply ok_text]) sample_texts (sample_args 1 None) 0
          \<lparr>prior_notes = sample_notes, current_scenario = scenario (sample_args 1 None)\<rparr> empty_world)))) = Body d
          \<and> chat_content d = Inr raw
          \<and> record_field ''response'' (last (logfile (snd (loop_iteration (scripted_env [reply ok_text]) sample_texts (sample_args 1 None) 0
          \<lparr>prior_notes = sample_notes, current_scenario = scenario (sample_args 1 None)\<rparr> empty_world))))
              = parse_or_error (json_loads (scripted_env [reply ok_text])) raw
          \<and> record_field ''prior_notes'' (last (logfile (snd (loop_iteration (scripted_env [reply ok_text]) sample_texts (sample_args 1 None) 0
          \<lparr>prior_notes = sample_notes, current_scenario = scenario (sample_args 1 None)\<rparr> empty_world))))
              = JObj (loop_notes (scripted_env [reply ok_text]) raw (prior_notes \<lparr>prior_notes = sample_notes, current_scenario = scenario (sample_args 1 None)\<rparr>))
          \<and> (\<forall>st'. fst (loop_iteration (scripted_env [reply ok_text]) sample_texts (sample_args 1 None) 0
          \<lparr>prior_notes = sample_notes, current_scenario = scenario (sample_args 1 None)\<rparr> empty_world) = Inr st' \<longrightarrow>
                 prior_notes st' = loop_notes (scripted_env [reply ok_text]) raw (prior_notes \<lparr>prior_notes = sample_notes, current_scenario = scenario (sample_args 1 None)\<rparr>)))"
    using t[THEN conjunct1] hl by simp
  have it: "(\<exists>d raw.
          req_messages (last (sent (snd (thoughts_iteration (scripted_env [reply ok_text]) sample_texts (sample_args 1 None) 0
          \<lparr>prior_notes = sample_notes, current_scenario = scenario (sample_args 1 None), thoughts = []\<rparr> empty_world))))
              = thoughts_messages sample_texts
                  (fst (thoughts_perturb (sample_args 1 None) 0 (current_scenario \<lparr>prior_notes = sample_notes, current_scenario = scenario (sample_args 1 None), thoughts = []\<rparr>)))
                  (render_thought_history (thoughts \<lparr>prior_notes = sample_notes, current_scenario = scenario (sample_args 1 None), thoughts = []\<rparr>) (history_window (sample_args 1 None)))
          \<and> http_post (scripted_env [reply ok_text]) (length (sent empty_world)) (last (sent (snd (thoughts_iteration (scripted_env [reply ok_text]) sample_texts (sample_args 1 None) 0
          \<lparr>prior_notes = sample_notes, current_scenario = scenario (sample_args 1 None), thoughts = []\<rparr> empty_world)))) = Body d
          \<and> chat_content d = Inr raw
          \<and> record_field ''prior_notes'' (last (logfile (snd (thoughts_iteration (scripted_env [reply ok_text]) sample_texts (sample_args 1 None) 0
          \<lparr>prior_notes = sample_notes, current_scenario = scenario (sample_args 1 None), thoughts = []\<rparr> empty_world))))
              = JObj (thoughts_notes (scripted_env [reply ok_text]) raw (prior_notes \<lparr>prior_notes = sample_notes, current_scenario = scenario (sample_args 1 None), thoughts = []\<rparr>))
          \<and> (\<forall>ts'. fst (thoughts_iteration (scripted_env [reply ok_text]) sample_texts (sample_args 1 None) 0
          \<lparr>prior_notes = sample_notes, current_scenario = scenario (sample_args 1 None), thoughts = []\<rparr> empty_world) = Inr ts' \<longrightarrow>
                 prior_notes ts' = thoughts_notes (scripted_env [reply ok_text]) raw (prior_notes \<lparr>prior_notes = sample_notes, current_scenario = scenario (sample_args 1 None), thoughts = []\<rparr>)))"
    using t[THEN conjunct2, THEN conjunct1] ht by simp
  have i3: "(\<exists>pr.
          record_field ''prior_notes'' (last (logfile (snd (loop_iteration (scripted_env [reply ok_text, reply ''oops'']) sample_texts (sample_args 2 None) 0
          (loop_init (sample_args 2 None)) empty_world))))
            = JObj (prior_notes \<lparr>prior_notes = [(''premises'', JArr [JStr ''p1'']), (''hypotheses'', JArr []),
              (''uncertainties'', JArr []), (''plan_next'', JArr [])],
            current_scenario = ''A Mars habitat loses power.''\<rparr>)
          \<and> render_prior (prior_notes \<lparr>prior_notes = [(''premises'', JArr [JStr ''p1'']), (''hypotheses'', JArr []),
              (''uncertainties'', JArr []), (''plan_next'', JArr [])],
            current_scenario = ''A Mars habitat loses power.''\<rparr>) = Inr pr
          \<and> req_messages (last (sent (snd (loop_iteration (scripted_env [reply ok_text, reply ''oops'']) sample_texts (sample_args 2 None) (Suc 0)
          \<lparr>prior_notes = [(''premises'', JArr [JStr ''p1'']), (''hypotheses'', JArr []),
              (''uncertainties'', JArr []), (''plan_next'', JArr [])],
            current_scenario = ''A Mars habitat loses power.''\<rparr>
          (snd (loop_iteration (scripted_env [reply ok_text, reply ''oops'']) sample_texts (sample_args 2 None) 0
          (loop_init (sample_args 2 None)) empty_world))))))
              = loop_messages sample_texts
                  (fst (loop_perturb (sample_args 2 None) (Suc 0) (current_scenario \<lparr>prior_notes = [(''premises'', JArr [JStr ''p1'']), (''hypotheses'', JArr []),
              (''uncertainties'', JArr []), (''plan_next'', JArr [])],
            current_scenario = ''A Mars habitat loses power.''\<rparr>))) pr)"
    using t3[THEN conjunct2, THEN conjunct2] h0 h1 by simp
  from hl il ht it c1 c2 c3 h0 h1 i3 c4 c5 show ?thesis by (intro conjI)
qed

end
